theory Spec2Isabelle
  imports Main "HOL-Library.Sublist"
begin

section \<open>JavaScript values\<close>

text \<open>
  Component properties are an untyped bag (\<open>z.record(z.unknown())\<close>), cloned with
  \<open>JSON.parse(JSON.stringify(...))\<close>, so the values the agents meet are JSON values.
  An object is the list of its own properties in enumeration order, with distinct keys.
  Numbers are integers (no fraction, \<open>NaN\<close> or infinity), printed in plain decimal as
  JavaScript prints them below \<open>10^21\<close>. A string is a list of code units below 256
  (Latin-1).
  A property that is absent reads as \<open>undefined\<close>, which is \<open>None\<close> of \<open>json option\<close>.
  Objects are taken to have no own property named like a built-in member that the code
  calls on a value (\<open>length\<close>, \<open>some\<close>, \<open>forEach\<close>, \<open>flatMap\<close>, \<open>toString\<close>).
\<close>

datatype json =
    JNull
  | JBool bool
  | JNum int
  | JStr string
  | JArr "json list"
  | JObj "(string \<times> json) list"

type_synonym props = "(string \<times> json) list"

text \<open>What the code can throw. \<open>SparseArray\<close> marks the one place where the result
  would be an array with holes, which a list of components cannot hold.\<close>

datatype js_error = TypeError string | SparseArray

definition bindE :: "js_error + 'a \<Rightarrow> ('a \<Rightarrow> js_error + 'b) \<Rightarrow> js_error + 'b" where
  "bindE m f = (case m of Inl e \<Rightarrow> Inl e | Inr x \<Rightarrow> f x)"

fun foldE :: "('a \<Rightarrow> 's \<Rightarrow> js_error + 's) \<Rightarrow> 'a list \<Rightarrow> 's \<Rightarrow> js_error + 's" where
  "foldE f [] s = Inr s"
| "foldE f (x # xs) s = (case f x s of Inl e \<Rightarrow> Inl e | Inr s' \<Rightarrow> foldE f xs s')"

text \<open>ToBoolean.\<close>

fun truthy :: "json option \<Rightarrow> bool" where
  "truthy None = False"
| "truthy (Some JNull) = False"
| "truthy (Some (JBool b)) = b"
| "truthy (Some (JNum n)) = (n \<noteq> 0)"
| "truthy (Some (JStr s)) = (s \<noteq> [])"
| "truthy (Some (JArr xs)) = True"
| "truthy (Some (JObj kvs)) = True"

text \<open>\<open>a || b\<close> on values.\<close>

definition js_or :: "json option \<Rightarrow> json option \<Rightarrow> json option" where
  "js_or a b = (if truthy a then a else b)"

text \<open>\<open>a + b\<close> on numbers. A number is a double: an integer of magnitude up to \<open>2^53\<close>
  is held exactly, a larger one is held when it is a 53-bit significand times a power of
  two. The sum is the exact sum rounded to the nearest such number, a tie going to the
  even significand. (Sums stay below the overflow threshold \<open>2^1024\<close>.)\<close>

function bit_length :: "int \<Rightarrow> nat" where
  "bit_length n = (if n \<le> 0 then 0 else Suc (bit_length (n div 2)))"
  by pat_completeness auto
termination
  by (relation "measure nat") auto

declare bit_length.simps [simp del]

definition round_double :: "int \<Rightarrow> int" where
  "round_double n =
     (if \<bar>n\<bar> \<le> 2 ^ 53 then n
      else (let m = \<bar>n\<bar>;
                e = bit_length m - 53;
                q = m div 2 ^ e;
                r = m mod 2 ^ e;
                q' = (if 2 ^ (e - 1) < r \<or> (r = 2 ^ (e - 1) \<and> odd q) then q + 1 else q)
            in sgn n * (q' * 2 ^ e)))"

definition js_add :: "int \<Rightarrow> int \<Rightarrow> int" where
  "js_add a b = round_double (a + b)"

text \<open>\<open>v.k\<close> for a value \<open>v\<close> that is not \<open>undefined\<close>: reading a property of
  \<open>null\<close> throws, a primitive or an array has no such property.\<close>

fun member :: "json \<Rightarrow> string \<Rightarrow> js_error + json option" where
  "member JNull k = Inl (TypeError (''Cannot read properties of null (reading ''
                            @ [CHR 0x27] @ k @ [CHR 0x27] @ '')''))"
| "member (JObj kvs) k = Inr (map_of kvs k)"
| "member v k = Inr None"

text \<open>The same for a value known to be truthy (never \<open>null\<close>).\<close>

fun member_of :: "json \<Rightarrow> string \<Rightarrow> json option" where
  "member_of (JObj kvs) k = map_of kvs k"
| "member_of v k = None"

subsection \<open>Strings\<close>

definition str_includes :: "string \<Rightarrow> string \<Rightarrow> bool" where
  "str_includes s k = sublist k s"

definition startsWith :: "string \<Rightarrow> string \<Rightarrow> bool" where
  "startsWith s k = prefix k s"

text \<open>\<open>toLowerCase\<close> on Latin-1: the capital letters are the codes 65 to 90 and 192 to
  222 without 215 (the multiplication sign); the small letter is 32 higher, which in
  these ranges is the same code with bit 5 set.\<close>

definition lower_char :: "char \<Rightarrow> char" where
  "lower_char c =
     (let n = (of_char c :: nat)
      in if (65 \<le> n \<and> n \<le> 90) \<or> (192 \<le> n \<and> n \<le> 222 \<and> n \<noteq> 215)
         then Char (digit0 c) (digit1 c) (digit2 c) (digit3 c) (digit4 c) True (digit6 c) (digit7 c)
         else c)"

definition toLowerCase :: "string \<Rightarrow> string" where
  "toLowerCase s = map lower_char s"

text \<open>\<open>toUpperCase\<close> is only applied to the rule names the code itself writes, which are
  ASCII.\<close>

definition upper_char :: "char \<Rightarrow> char" where
  "upper_char c =
     (let n = (of_char c :: nat)
      in if 97 \<le> n \<and> n \<le> 122
         then Char (digit0 c) (digit1 c) (digit2 c) (digit3 c) (digit4 c) False (digit6 c) (digit7 c)
         else c)"

definition toUpperCase :: "string \<Rightarrow> string" where
  "toUpperCase s = map upper_char s"

fun join :: "string \<Rightarrow> string list \<Rightarrow> string" where
  "join sep [] = []"
| "join sep [x] = x"
| "join sep (x # y # ys) = x @ sep @ join sep (y # ys)"

definition digit_char :: "nat \<Rightarrow> char" where
  "digit_char n = ''0123456789'' ! n"

fun nat_to_string :: "nat \<Rightarrow> string" where
  "nat_to_string n =
     (if n < 10 then [digit_char n] else nat_to_string (n div 10) @ [digit_char (n mod 10)])"

declare nat_to_string.simps [simp del]

definition int_to_string :: "int \<Rightarrow> string" where
  "int_to_string i =
     (if i < 0 then CHR ''-'' # nat_to_string (nat (- i)) else nat_to_string (nat i))"

text \<open>ToString of a value; an array joins its elements with commas, \<open>null\<close> elements
  being empty.\<close>

fun ToString :: "json \<Rightarrow> string" where
  "ToString JNull = ''null''"
| "ToString (JBool b) = (if b then ''true'' else ''false'')"
| "ToString (JNum n) = int_to_string n"
| "ToString (JStr s) = s"
| "ToString (JArr xs) = join '','' (map (\<lambda>x. if x = JNull then [] else ToString x) xs)"
| "ToString (JObj kvs) = ''[object Object]''"

text \<open>\<open>String(v)\<close> and \<open>${v}\<close> in a template literal.\<close>

fun js_String :: "json option \<Rightarrow> string" where
  "js_String None = ''undefined''"
| "js_String (Some v) = ToString v"

section \<open>The data model (agents/types.ts)\<close>

record ComponentMetadata =
  reason :: "string option"
  alternatives :: "string list option"

record ComponentSpec =
  comp_name :: string
  comp_props :: props
  comp_children :: "json list option"
  comp_metadata :: "ComponentMetadata option"

datatype layout_type = Stack | Grid | Flex | Custom

record Layout =
  layout_type :: "layout_type option"
  spacing :: "string option"
  maxWidth :: "string option"

record UIMetadata =
  createdAt :: "string option"
  updatedAt :: "string option"
  version :: "int option"

record UISpec =
  ui_id :: string
  ui_name :: "string option"
  ui_description :: "string option"
  ui_components :: "ComponentSpec list"
  ui_layout :: "Layout option"
  ui_metadata :: "UIMetadata option"

datatype AgentRole =
  Orchestrator | UIArchitect | DesignCritic | Accessibility | ExportEngineer | User

datatype AgentActionType =
  CREATE_UI | MODIFY_UI | VALIDATE_DESIGN | VALIDATE_ACCESSIBILITY | EXPORT_CODE | ANALYZE_REQUEST

datatype msg_severity = SevError | SevWarning | SevInfo

record AgentError =
  err_code :: string
  err_message :: string
  err_severity :: msg_severity

record 'd AgentResponse =
  success :: bool
  data :: "'d option"
  errors :: "AgentError list"
  suggestions :: "string list option"
  nextAgent :: "AgentRole option"

text \<open>\<open>JSON.parse(JSON.stringify(uiSpec))\<close>: a deep copy. Values of the model are
  immutable and hold no \<open>undefined\<close>, so the copy is the value itself.\<close>

definition clone :: "UISpec \<Rightarrow> UISpec" where
  "clone ui = ui"

text \<open>\<open>{...a, ...b}\<close>: the keys of \<open>a\<close> in order, overwritten where \<open>b\<close> has them,
  then the new keys of \<open>b\<close>.\<close>

fun set_prop :: "props \<Rightarrow> string \<Rightarrow> json \<Rightarrow> props" where
  "set_prop [] k v = [(k, v)]"
| "set_prop ((k', v') # ps) k v = (if k' = k then (k, v) # ps else (k', v') # set_prop ps k v)"

definition spread :: "props \<Rightarrow> props \<Rightarrow> props" where
  "spread a b = fold (\<lambda>(k, v) acc. set_prop acc k v) b a"

section \<open>The environment: identifiers and the clock\<close>

text \<open>
  \<open>uuidv4()\<close> and \<open>new Date().toISOString()\<close> are the only inputs the agents take from
  outside. The environment gives the result of the n-th call of each; the pair of call
  counts is threaded through the code that makes the calls.
\<close>

record env =
  uuid_gen :: "nat \<Rightarrow> string"
  clock :: "nat \<Rightarrow> string"

type_synonym ticks = "nat \<times> nat"

definition uuidv4 :: "env \<Rightarrow> ticks \<Rightarrow> string \<times> ticks" where
  "uuidv4 e t = (uuid_gen e (fst t), (Suc (fst t), snd t))"

definition toISOString :: "env \<Rightarrow> ticks \<Rightarrow> string \<times> ticks" where
  "toISOString e t = (clock e (snd t), (fst t, Suc (snd t)))"

section \<open>The conversation context\<close>

datatype payload =
    PMessage string
  | PUserMessage string
  | PUISpec UISpec

record AgentMessage =
  msg_id :: string
  msg_from :: AgentRole
  msg_to :: AgentRole
  msg_action :: AgentActionType
  msg_payload :: payload
  msg_timestamp :: string

datatype pref_style = Modern | Classic | Minimal
datatype pref_colorScheme = Light | Dark | Auto
datatype pref_accessibility = Standard | Enhanced

record UserPreferences =
  pref_style :: "pref_style option"
  pref_colorScheme :: "pref_colorScheme option"
  pref_accessibility :: "pref_accessibility option"

record AgentContext =
  conversationId :: string
  currentUI :: "UISpec option"
  history :: "AgentMessage list"
  userPreferences :: "UserPreferences option"

section \<open>The UI Architect (agents/ui-architect.ts)\<close>

datatype request_type = Create | Modify | Unknown

definition modifyKeywords :: "string list" where
  "modifyKeywords =
    [''change'', ''update'', ''modify'', ''make it'', ''add to'',
     ''remove'', ''improve'', ''fix'', ''adjust'', ''tweak'',
     ''instead'', ''replace'', ''bigger'', ''smaller'', ''more'']"

definition createKeywords :: "string list" where
  "createKeywords =
    [''create'', ''build'', ''make'', ''generate'', ''design'',
     ''new'', ''start'', ''begin'', ''i want'', ''i need'']"

definition analyzeRequestType :: "AgentContext \<Rightarrow> string \<Rightarrow> request_type" where
  "analyzeRequestType ctx message =
     (let lowerMessage = toLowerCase message;
          hasModifyKeyword = list_ex (\<lambda>k. str_includes lowerMessage k) modifyKeywords;
          hasCreateKeyword = list_ex (\<lambda>k. str_includes lowerMessage k) createKeywords
      in if hasModifyKeyword \<and> currentUI ctx \<noteq> None then Modify
         else if hasCreateKeyword \<or> currentUI ctx = None then Create
         else if currentUI ctx \<noteq> None then Modify else Create)"

definition componentKeywords :: "(string \<times> string list) list" where
  "componentKeywords =
    [(''button'', [''button'', ''cta'', ''action'', ''click'', ''submit'']),
     (''card'', [''card'', ''container'', ''box'', ''section'', ''panel'']),
     (''pricing'', [''pricing'', ''plans'', ''tiers'', ''subscription'', ''cost'']),
     (''dashboard'', [''dashboard'', ''admin'', ''panel'', ''analytics'', ''stats'']),
     (''chart'', [''chart'', ''graph'', ''data'', ''visualization'', ''metrics'']),
     (''form'', [''form'', ''input'', ''submit'', ''contact'', ''sign up'', ''login'']),
     (''modal'', [''modal'', ''dialog'', ''popup'', ''overlay'', ''confirm'']),
     (''testimonial'', [''testimonial'', ''review'', ''quote'', ''feedback'', ''customer''])]"

definition styleKeywords :: "string list" where
  "styleKeywords =
    [''modern'', ''minimal'', ''clean'', ''professional'', ''vibrant'', ''dark'', ''light'']"

definition extractKeywords :: "string \<Rightarrow> string list" where
  "extractKeywords description =
     (let lowerDesc = toLowerCase description
      in map fst (filter (\<lambda>(key, terms). list_ex (\<lambda>t. str_includes lowerDesc t) terms)
                    componentKeywords)
         @ map (\<lambda>style. ''style:'' @ style)
             (filter (\<lambda>style. str_includes lowerDesc style) styleKeywords))"

subsection \<open>Component templates\<close>

definition createButtonSpec :: "string \<Rightarrow> ComponentSpec" where
  "createButtonSpec description =
     (let lowerDesc = toLowerCase description;
          txt = (if str_includes lowerDesc ''contact'' then ''Contact Us''
                 else if str_includes lowerDesc ''sign up'' then ''Sign Up''
                 else if str_includes lowerDesc ''learn more'' then ''Learn More''
                 else if str_includes lowerDesc ''try'' then ''Try for Free''
                 else ''Get Started'')
      in \<lparr> comp_name = ''Button'',
           comp_props = [(''text'', JStr txt), (''variant'', JStr ''solid''),
                         (''color'', JStr ''primary''), (''size'', JStr ''lg'')],
           comp_children = None,
           comp_metadata = Some \<lparr> reason = Some ''Primary call-to-action button'',
                                    alternatives = None \<rparr> \<rparr>)"

definition createCardSpec :: "string \<Rightarrow> ComponentSpec" where
  "createCardSpec description =
     (let lowerDesc = toLowerCase description;
          variant = (if str_includes lowerDesc ''modern'' \<or> str_includes lowerDesc ''glass''
                     then ''glass''
                     else if str_includes lowerDesc ''gradient'' then ''gradient''
                     else ''elevated'')
      in \<lparr> comp_name = ''Card'',
           comp_props = [(''variant'', JStr variant), (''title'', JStr ''Welcome''),
                         (''content'', JStr ''Your content goes here. Describe your product or service.''),
                         (''hoverable'', JBool True), (''size'', JStr ''lg'')],
           comp_children = None,
           comp_metadata = Some \<lparr> reason = Some ''Content container for hero or feature section'',
                                    alternatives = None \<rparr> \<rparr>)"

definition tier_feature :: "string \<Rightarrow> bool \<Rightarrow> json" where
  "tier_feature t inc = JObj [(''text'', JStr t), (''included'', JBool inc)]"

definition createPricingTableSpec :: "string \<Rightarrow> ComponentSpec" where
  "createPricingTableSpec description =
     \<lparr> comp_name = ''PricingTable'',
       comp_props =
         [(''headline'', JStr ''Choose Your Plan''),
          (''subheadline'', JStr ''Select the perfect plan for your needs''),
          (''tiers'', JArr
            [JObj [(''id'', JStr ''starter''), (''name'', JStr ''Starter''), (''price'', JNum 9),
                   (''currency'', JStr ''USD''), (''billingPeriod'', JStr ''month''),
                   (''description'', JStr ''Perfect for getting started''),
                   (''features'', JArr [tier_feature ''5 Projects'' True, tier_feature ''Basic Support'' True,
                                        tier_feature ''1GB Storage'' True, tier_feature ''API Access'' False]),
                   (''ctaText'', JStr ''Get Started'')],
             JObj [(''id'', JStr ''pro''), (''name'', JStr ''Professional''), (''price'', JNum 29),
                   (''currency'', JStr ''USD''), (''billingPeriod'', JStr ''month''),
                   (''description'', JStr ''Best for professionals''),
                   (''features'', JArr [tier_feature ''Unlimited Projects'' True,
                                        tier_feature ''Priority Support'' True,
                                        tier_feature ''10GB Storage'' True, tier_feature ''API Access'' True]),
                   (''ctaText'', JStr ''Start Free Trial''), (''featured'', JBool True),
                   (''badge'', JStr ''Most Popular'')],
             JObj [(''id'', JStr ''enterprise''), (''name'', JStr ''Enterprise''), (''price'', JNum 99),
                   (''currency'', JStr ''USD''), (''billingPeriod'', JStr ''month''),
                   (''description'', JStr ''For large organizations''),
                   (''features'', JArr [tier_feature ''Unlimited Everything'' True,
                                        tier_feature ''24/7 Support'' True,
                                        tier_feature ''Unlimited Storage'' True,
                                        tier_feature ''Custom Integrations'' True]),
                   (''ctaText'', JStr ''Contact Sales'')]]),
          (''showBillingToggle'', JBool True),
          (''yearlyDiscount'', JNum 20)],
       comp_children = None,
       comp_metadata = Some \<lparr> reason = Some ''Pricing table for SaaS subscription plans'',
                                alternatives = None \<rparr> \<rparr>"

definition createDashboardSpec :: "string \<Rightarrow> ComponentSpec" where
  "createDashboardSpec description =
     \<lparr> comp_name = ''DashboardLayout'',
       comp_props =
         [(''sidebar'', JObj
            [(''title'', JStr ''Dashboard''),
             (''navItems'', JArr
               [JObj [(''id'', JStr ''home''), (''label'', JStr ''Home''), (''icon'', JStr ''home''),
                      (''href'', JStr ''/''), (''active'', JBool True)],
                JObj [(''id'', JStr ''analytics''), (''label'', JStr ''Analytics''),
                      (''icon'', JStr ''bar-chart''), (''href'', JStr ''/analytics'')],
                JObj [(''id'', JStr ''projects''), (''label'', JStr ''Projects''),
                      (''icon'', JStr ''folder''), (''href'', JStr ''/projects'')],
                JObj [(''id'', JStr ''settings''), (''label'', JStr ''Settings''),
                      (''icon'', JStr ''settings''), (''href'', JStr ''/settings'')]]),
             (''collapsible'', JBool True),
             (''showUserProfile'', JBool True),
             (''userInfo'', JObj [(''name'', JStr ''John Doe''),
                                  (''email'', JStr ''john@example.com'')])]),
          (''showSidebar'', JBool True),
          (''header'', JObj [(''title'', JStr ''Overview''), (''showSearch'', JBool True),
                             (''showNotifications'', JBool True), (''showUserMenu'', JBool True)]),
          (''showHeader'', JBool True),
          (''pageTitle'', JStr ''Dashboard''),
          (''contentPadding'', JStr ''md'')],
       comp_children = None,
       comp_metadata = Some \<lparr> reason = Some ''Dashboard layout with navigation sidebar and header'',
                                alternatives = None \<rparr> \<rparr>"

definition data_point :: "string \<Rightarrow> int \<Rightarrow> json" where
  "data_point n v = JObj [(''name'', JStr n), (''value'', JNum v)]"

definition createChartSpec :: "string \<Rightarrow> ComponentSpec" where
  "createChartSpec description =
     \<lparr> comp_name = ''Chart'',
       comp_props =
         [(''type'', JStr ''line''),
          (''title'', JStr ''Performance Overview''),
          (''subtitle'', JStr ''Last 6 months''),
          (''data'', JArr [data_point ''Jan'' 1200, data_point ''Feb'' 1900, data_point ''Mar'' 1500,
                           data_point ''Apr'' 2400, data_point ''May'' 2100, data_point ''Jun'' 2800]),
          (''showLegend'', JBool True),
          (''showGrid'', JBool True),
          (''animated'', JBool True),
          (''colorScheme'', JStr ''default'')],
       comp_children = None,
       comp_metadata = Some \<lparr> reason = Some ''Data visualization chart'', alternatives = None \<rparr> \<rparr>"

definition form_field :: "string \<Rightarrow> string \<Rightarrow> string \<Rightarrow> string \<Rightarrow> json" where
  "form_field n ty lbl ph =
     JObj [(''id'', JStr n), (''name'', JStr n), (''type'', JStr ty), (''label'', JStr lbl),
           (''placeholder'', JStr ph), (''required'', JBool True)]"

definition createFormSpec :: "string \<Rightarrow> ComponentSpec" where
  "createFormSpec description =
     \<lparr> comp_name = ''Form'',
       comp_props =
         [(''title'', JStr ''Contact Us''),
          (''description'', JStr (''Fill out the form below and we'' @ [CHR 0x27] @ ''ll get back to you'')),
          (''fields'', JArr
            [form_field ''name'' ''text'' ''Full Name'' ''John Doe'',
             form_field ''email'' ''email'' ''Email'' ''john@example.com'',
             form_field ''message'' ''textarea'' ''Message'' ''How can we help?'']),
          (''submitText'', JStr ''Send Message''),
          (''showSubmitButton'', JBool True),
          (''showValidationOnBlur'', JBool True)],
       comp_children = None,
       comp_metadata = Some \<lparr> reason = Some ''Contact or input form'', alternatives = None \<rparr> \<rparr>"

definition createModalSpec :: "string \<Rightarrow> ComponentSpec" where
  "createModalSpec description =
     \<lparr> comp_name = ''Modal'',
       comp_props =
         [(''title'', JStr ''Confirm Action''),
          (''description'', JStr ''Are you sure you want to proceed?''),
          (''variant'', JStr ''default''),
          (''size'', JStr ''md''),
          (''showCloseButton'', JBool True),
          (''primaryAction'', JObj [(''text'', JStr ''Confirm''), (''variant'', JStr ''solid'')]),
          (''secondaryAction'', JObj [(''text'', JStr ''Cancel''), (''variant'', JStr ''outline'')]),
          (''isOpen'', JBool True)],
       comp_children = None,
       comp_metadata = Some \<lparr> reason = Some ''Modal dialog for confirmations or focused content'',
                                alternatives = None \<rparr> \<rparr>"

definition testimonial_entry :: "string \<Rightarrow> string \<Rightarrow> string \<Rightarrow> string \<Rightarrow> string \<Rightarrow> json" where
  "testimonial_entry i q an ar ac =
     JObj [(''id'', JStr i), (''quote'', JStr q), (''authorName'', JStr an),
           (''authorRole'', JStr ar), (''authorCompany'', JStr ac), (''rating'', JNum 5)]"

definition createTestimonialSpec :: "string \<Rightarrow> ComponentSpec" where
  "createTestimonialSpec description =
     \<lparr> comp_name = ''TestimonialSection'',
       comp_props =
         [(''headline'', JStr ''What Our Customers Say''),
          (''subheadline'', JStr (''Don'' @ [CHR 0x27] @ ''t just take our word for it'')),
          (''testimonials'', JArr
            [testimonial_entry ''1''
               ''This product has completely transformed how we work. Highly recommended!''
               ''Sarah Johnson'' ''CEO'' ''TechCorp'',
             testimonial_entry ''2''
               (''The best investment we'' @ [CHR 0x27] @ ''ve made this year. The results speak for themselves.'')
               ''Michael Chen'' ''Director of Operations'' ''StartupXYZ'',
             testimonial_entry ''3''
               ''Incredible support team and a product that just works. Love it!''
               ''Emily Brown'' ''Product Manager'' ''InnovateCo'']),
          (''layout'', JStr ''grid''),
          (''columns'', JNum 3),
          (''showRatings'', JBool True),
          (''showAvatars'', JBool True),
          (''cardStyle'', JStr ''elevated'')],
       comp_children = None,
       comp_metadata = Some \<lparr> reason = Some ''Customer testimonials for social proof'',
                                alternatives = None \<rparr> \<rparr>"

subsection \<open>Creating a new UI\<close>

definition selectComponents :: "string list \<Rightarrow> string \<Rightarrow> ComponentSpec list" where
  "selectComponents keywords description =
     (let lowerDesc = toLowerCase description;
          c1 = (if ''pricing'' \<in> set keywords then [createPricingTableSpec description] else []);
          c2 = c1 @ (if ''dashboard'' \<in> set keywords then [createDashboardSpec description] else []);
          c3 = c2 @ (if ''chart'' \<in> set keywords then [createChartSpec description] else []);
          c4 = c3 @ (if ''form'' \<in> set keywords then [createFormSpec description] else []);
          c5 = c4 @ (if ''modal'' \<in> set keywords then [createModalSpec description] else []);
          c6 = c5 @ (if ''testimonial'' \<in> set keywords
                     then [createTestimonialSpec description] else []);
          c7 = c6 @ (if ''card'' \<in> set keywords \<or> str_includes lowerDesc ''hero''
                        \<or> str_includes lowerDesc ''feature''
                     then [createCardSpec description] else []);
          c8 = c7 @ (if length c7 > 0 \<and> (str_includes lowerDesc ''landing''
                        \<or> str_includes lowerDesc ''hero'' \<or> str_includes lowerDesc ''cta'')
                     then [createButtonSpec description] else [])
      in if length c8 = 0
         then c8 @ [createCardSpec description] @ [createButtonSpec description]
         else c8)"

definition determineLayout :: "ComponentSpec list \<Rightarrow> Layout" where
  "determineLayout components =
     (let hasFullWidth =
            list_ex (\<lambda>c. comp_name c = ''DashboardLayout'' \<or> comp_name c = ''PricingTable'')
              components
      in if hasFullWidth
         then \<lparr> layout_type = Some Stack, spacing = Some ''0'', maxWidth = None \<rparr>
         else \<lparr> layout_type = Some Stack, spacing = Some ''2rem'', maxWidth = Some ''1200px'' \<rparr>)"

definition generateUIName :: "string \<Rightarrow> string" where
  "generateUIName description =
     (let lowerDesc = toLowerCase description
      in if str_includes lowerDesc ''pricing'' then ''Pricing Page''
         else if str_includes lowerDesc ''dashboard'' then ''Dashboard''
         else if str_includes lowerDesc ''landing'' then ''Landing Page''
         else if str_includes lowerDesc ''hero'' then ''Hero Section''
         else if str_includes lowerDesc ''contact'' then ''Contact Form''
         else if str_includes lowerDesc ''testimonial'' then ''Testimonials Section''
         else ''Generated UI'')"

definition createNewUI :: "env \<Rightarrow> ticks \<Rightarrow> string \<Rightarrow> UISpec \<times> ticks" where
  "createNewUI e t description =
     (let keywords = extractKeywords description;
          components = selectComponents keywords description;
          (newId, t1) = uuidv4 e t;
          (now, t2) = toISOString e t1
      in (\<lparr> ui_id = newId,
            ui_name = Some (generateUIName description),
            ui_description = Some description,
            ui_components = components,
            ui_layout = Some (determineLayout components),
            ui_metadata = Some \<lparr> createdAt = Some now, updatedAt = None, version = Some 1 \<rparr> \<rparr>,
          t2))"

subsection \<open>Modifying the current UI\<close>

datatype mod_action = Add | Remove | Update | Replace

record modification =
  mod_action :: mod_action
  mod_componentIndex :: "nat option"
  mod_component :: "ComponentSpec option"
  mod_props :: "props option"

definition determineModifications :: "string \<Rightarrow> string list \<Rightarrow> modification list" where
  "determineModifications request keywords =
     (let lowerRequest = toLowerCase request
      in (if str_includes lowerRequest ''more modern'' \<or> str_includes lowerRequest ''modern''
          then [\<lparr> mod_action = Update, mod_componentIndex = Some 0, mod_component = None,
                   mod_props = Some [(''variant'', JStr ''glass'')] \<rparr>] else [])
       @ (if str_includes lowerRequest ''bigger'' \<or> str_includes lowerRequest ''larger''
          then [\<lparr> mod_action = Update, mod_componentIndex = Some 0, mod_component = None,
                   mod_props = Some [(''size'', JStr ''xl'')] \<rparr>] else [])
       @ (if str_includes lowerRequest ''smaller''
          then [\<lparr> mod_action = Update, mod_componentIndex = Some 0, mod_component = None,
                   mod_props = Some [(''size'', JStr ''sm'')] \<rparr>] else [])
       @ (if str_includes lowerRequest ''add button'' \<or> str_includes lowerRequest ''add cta''
          then [\<lparr> mod_action = Add, mod_componentIndex = None,
                   mod_component = Some (createButtonSpec request), mod_props = None \<rparr>] else [])
       @ (if str_includes lowerRequest ''add testimonial''
          then [\<lparr> mod_action = Add, mod_componentIndex = None,
                   mod_component = Some (createTestimonialSpec request), mod_props = None \<rparr>]
          else []))"

text \<open>One turn of the loop over the modifications. The \<open>update\<close> case reads
  \<open>newUI.components[i].props\<close> with no check of the index: past the end the element is
  \<open>undefined\<close> and the read throws. \<open>splice\<close> past the end removes nothing. An
  assignment past the end extends the array; beyond the first free index it would leave
  holes.\<close>

definition applyModification ::
  "modification \<Rightarrow> ComponentSpec list \<Rightarrow> js_error + ComponentSpec list" where
  "applyModification m cs =
     (case mod_action m of
        Add \<Rightarrow>
          (case mod_component m of
             Some c \<Rightarrow> Inr (cs @ [c])
           | None \<Rightarrow> Inr cs)
      | Remove \<Rightarrow>
          (case mod_componentIndex m of
             Some i \<Rightarrow> Inr (take i cs @ drop (Suc i) cs)
           | None \<Rightarrow> Inr cs)
      | Update \<Rightarrow>
          (case (mod_componentIndex m, mod_props m) of
             (Some i, Some p) \<Rightarrow>
               if i < length cs
               then Inr (cs[i := (cs ! i)\<lparr> comp_props := spread (comp_props (cs ! i)) p \<rparr>])
               else Inl (TypeError (''Cannot read properties of undefined (reading ''
                                @ [CHR 0x27] @ ''props'' @ [CHR 0x27] @ '')''))
           | _ \<Rightarrow> Inr cs)
      | Replace \<Rightarrow>
          (case (mod_componentIndex m, mod_component m) of
             (Some i, Some c) \<Rightarrow>
               if i < length cs then Inr (cs[i := c])
               else if i = length cs then Inr (cs @ [c])
               else Inl SparseArray
           | _ \<Rightarrow> Inr cs))"

text \<open>\<open>(newUI.metadata?.version || 0) + 1\<close>.\<close>

definition next_version :: "UIMetadata option \<Rightarrow> int" where
  "next_version md =
     js_add
       (case md of
          None \<Rightarrow> 0
        | Some m \<Rightarrow> (case version m of None \<Rightarrow> 0 | Some v \<Rightarrow> if v = 0 then 0 else v))
       1"

definition modifyExistingUI ::
  "env \<Rightarrow> ticks \<Rightarrow> string \<Rightarrow> UISpec \<Rightarrow> (js_error + UISpec) \<times> ticks" where
  "modifyExistingUI e t request cur =
     (let keywords = extractKeywords request;
          modifications = determineModifications request keywords;
          newUI = clone cur;
          (newId, t1) = uuidv4 e t;
          (now, t2) = toISOString e t1;
          newUI = newUI\<lparr> ui_id := newId \<rparr>;
          newUI = newUI\<lparr> ui_metadata := Some
                    \<lparr> createdAt = (case ui_metadata newUI of None \<Rightarrow> None | Some m \<Rightarrow> createdAt m),
                      updatedAt = Some now,
                      version = Some (next_version (ui_metadata newUI)) \<rparr> \<rparr>
      in (case foldE applyModification modifications (ui_components newUI) of
            Inl err \<Rightarrow> Inl err
          | Inr cs \<Rightarrow> Inr (newUI\<lparr> ui_components := cs \<rparr>),
          t2))"

subsection \<open>Processing a request\<close>

fun error_String :: "js_error \<Rightarrow> string" where
  "error_String (TypeError m) = ''TypeError: '' @ m"
| "error_String SparseArray = ''SparseArray''"

definition failure :: "string \<Rightarrow> string \<Rightarrow> 'd AgentResponse" where
  "failure c m =
     \<lparr> success = False, data = None,
       errors = [\<lparr> err_code = c, err_message = m, err_severity = SevError \<rparr>],
       suggestions = None, nextAgent = None \<rparr>"

text \<open>The body of \<open>processRequest\<close> below the classification, for a request of the
  given type.\<close>

definition architect_dispatch ::
  "env \<Rightarrow> ticks \<Rightarrow> AgentContext \<Rightarrow> string \<Rightarrow> request_type
     \<Rightarrow> UISpec AgentResponse \<times> ticks" where
  "architect_dispatch e t ctx userMessage requestType =
     (case requestType of
        Create \<Rightarrow>
          (let (uiSpec, t') = createNewUI e t userMessage
           in (\<lparr> success = True, data = Some uiSpec, errors = [], suggestions = None,
                 nextAgent = Some DesignCritic \<rparr>, t'))
      | Modify \<Rightarrow>
          (case currentUI ctx of
             None \<Rightarrow>
               (failure ''NO_EXISTING_UI'' ''No existing UI to modify. Please create a UI first.'', t)
           | Some cur \<Rightarrow>
               (case modifyExistingUI e t userMessage cur of
                  (Inl err, t') \<Rightarrow> (failure ''PROCESSING_ERROR'' (error_String err), t')
                | (Inr uiSpec, t') \<Rightarrow>
                    (\<lparr> success = True, data = Some uiSpec, errors = [], suggestions = None,
                       nextAgent = Some DesignCritic \<rparr>, t')))
      | Unknown \<Rightarrow>
          (failure ''UNKNOWN_REQUEST''
             ''Could not understand the request. Please describe what UI you want to create.'', t))"

definition architect_processRequest ::
  "env \<Rightarrow> ticks \<Rightarrow> AgentContext \<Rightarrow> string \<Rightarrow> UISpec AgentResponse \<times> ticks" where
  "architect_processRequest e t ctx userMessage =
     architect_dispatch e t ctx userMessage (analyzeRequestType ctx userMessage)"

section \<open>The Design Critic (agents/design-critic.ts)\<close>

datatype issue_type = Spacing | Hierarchy | Contrast | Alignment | Consistency

datatype issue_severity = Error | Warning | Suggestion

record DesignIssue =
  issue_type :: issue_type
  issue_severity :: issue_severity
  issue_message :: string
  issue_fix :: "ComponentSpec option"

record Improvement =
  imp_componentIndex :: nat
  imp_suggestion :: string
  imp_proposedProps :: "props option"

record DesignFeedback =
  fb_score :: int
  fb_issues :: "DesignIssue list"
  fb_improvements :: "Improvement list"

definition push_issue ::
  "issue_type \<Rightarrow> issue_severity \<Rightarrow> string \<Rightarrow> DesignFeedback \<Rightarrow> DesignFeedback" where
  "push_issue ty sev m fb =
     fb\<lparr> fb_issues := fb_issues fb @
          [\<lparr> issue_type = ty, issue_severity = sev, issue_message = m, issue_fix = None \<rparr>] \<rparr>"

definition push_improvement ::
  "nat \<Rightarrow> string \<Rightarrow> props option \<Rightarrow> DesignFeedback \<Rightarrow> DesignFeedback" where
  "push_improvement i sug pp fb =
     fb\<lparr> fb_improvements := fb_improvements fb @
          [\<lparr> imp_componentIndex = i, imp_suggestion = sug, imp_proposedProps = pp \<rparr>] \<rparr>"

text \<open>\<open>xs.some(cb)\<close> on an array: stops at the first element for which the callback is
  truthy, so a later element that would make the callback throw is never reached.\<close>

fun array_some :: "(json \<Rightarrow> js_error + bool) \<Rightarrow> json list \<Rightarrow> js_error + bool" where
  "array_some cb [] = Inr False"
| "array_some cb (x # xs) =
     (case cb x of Inl e \<Rightarrow> Inl e | Inr b \<Rightarrow> if b then Inr True else array_some cb xs)"

text \<open>\<open>v.length\<close> of a truthy value: arrays and strings have one.\<close>

fun js_length :: "json \<Rightarrow> nat option" where
  "js_length (JArr xs) = Some (length xs)"
| "js_length (JStr s) = Some (length s)"
| "js_length v = None"

text \<open>\<open>v.length < n\<close>; a comparison with \<open>undefined\<close> is false.\<close>

definition length_less :: "json \<Rightarrow> nat \<Rightarrow> bool" where
  "length_less v n = (case js_length v of None \<Rightarrow> False | Some l \<Rightarrow> l < n)"

text \<open>The blocks of \<open>checkComponent\<close>, one per kind of component. In the pricing
  table block \<open>tiers.some\<close> is a function only on an array; once it has returned,
  \<open>tiers\<close> is an array.\<close>

definition reviewPricingTable :: "props \<Rightarrow> nat \<Rightarrow> DesignFeedback \<Rightarrow> js_error + DesignFeedback" where
  "reviewPricingTable props index feedback =
     (let tiers = map_of props ''tiers''
      in if truthy tiers
         then (case tiers of
                 Some (JArr ts) \<Rightarrow>
                   (case array_some (\<lambda>t. case member t ''featured'' of
                                            Inl e \<Rightarrow> Inl e | Inr v \<Rightarrow> Inr (truthy v)) ts of
                      Inl e \<Rightarrow> Inl e
                    | Inr anyFeatured \<Rightarrow>
                        (let fb1 = (if \<not> anyFeatured
                                    then push_improvement index
                                           ''Mark one tier as featured to guide user attention''
                                           None feedback
                                    else feedback)
                         in Inr (if length ts < 2
                                 then push_issue Hierarchy Suggestion
                                        ''Consider adding more pricing tiers for comparison'' fb1
                                 else fb1)))
               | _ \<Rightarrow> Inl (TypeError ''tiers.some is not a function''))
         else Inr feedback)"

definition reviewButton :: "props \<Rightarrow> nat \<Rightarrow> DesignFeedback \<Rightarrow> DesignFeedback" where
  "reviewButton props index feedback =
     (let size = map_of props ''size'';
          fb1 = (if size = Some (JStr ''xs'') \<or> size = Some (JStr ''sm'')
                 then push_improvement index
                        ''Consider using a larger button for better visibility''
                        (Some [(''size'', JStr ''md'')]) feedback
                 else feedback)
      in if truthy (map_of props ''iconOnly'') \<and> \<not> truthy (map_of props ''ariaLabel'')
            \<and> \<not> truthy (map_of props ''aria-label'')
         then push_issue Hierarchy Warning
                (''Button at index '' @ nat_to_string index
                   @ '' is icon-only without an aria-label'') fb1
         else fb1)"

definition reviewCard :: "props \<Rightarrow> nat \<Rightarrow> DesignFeedback \<Rightarrow> DesignFeedback" where
  "reviewCard props index feedback =
     (let fb1 = (if \<not> truthy (map_of props ''title'') \<and> \<not> truthy (map_of props ''header'')
                 then push_improvement index
                        ''Add a title for better visual hierarchy''
                        (Some [(''title'', JStr ''Section Title'')]) feedback
                 else feedback)
      in if \<not> truthy (map_of props ''variant'')
         then push_improvement index
                ''Specify a card variant for visual interest''
                (Some [(''variant'', JStr ''elevated'')]) fb1
         else fb1)"

definition reviewForm :: "props \<Rightarrow> nat \<Rightarrow> DesignFeedback \<Rightarrow> DesignFeedback" where
  "reviewForm props index feedback =
     (if \<not> truthy (map_of props ''showValidationOnBlur'')
         \<and> \<not> truthy (map_of props ''showValidationOnChange'')
      then push_improvement index
             ''Enable validation feedback for better UX''
             (Some [(''showValidationOnBlur'', JBool True)]) feedback
      else feedback)"

definition reviewChart :: "props \<Rightarrow> nat \<Rightarrow> DesignFeedback \<Rightarrow> DesignFeedback" where
  "reviewChart props index feedback =
     (let fb1 = (if \<not> truthy (map_of props ''title'')
                 then push_improvement index
                        ''Add a title to provide context for the chart''
                        (Some [(''title'', JStr ''Data Overview'')]) feedback
                 else feedback)
      in if map_of props ''showLegend'' = Some (JBool False)
         then push_improvement index
                ''Consider showing the legend for better data understanding''
                (Some [(''showLegend'', JBool True)]) fb1
         else fb1)"

text \<open>\<open>header && !header.showBreadcrumbs\<close>: the property is read only of a truthy
  header.\<close>

definition reviewDashboard :: "props \<Rightarrow> nat \<Rightarrow> DesignFeedback \<Rightarrow> DesignFeedback" where
  "reviewDashboard props index feedback =
     (case map_of props ''header'' of
        None \<Rightarrow> feedback
      | Some header \<Rightarrow>
          if truthy (Some header) \<and> \<not> truthy (member_of header ''showBreadcrumbs'')
          then push_improvement index
                 ''Add breadcrumbs for better navigation context'' None feedback
          else feedback)"

definition reviewTestimonials :: "props \<Rightarrow> nat \<Rightarrow> DesignFeedback \<Rightarrow> DesignFeedback" where
  "reviewTestimonials props index feedback =
     (let fb1 = (case map_of props ''testimonials'' of
                   None \<Rightarrow> feedback
                 | Some testimonials \<Rightarrow>
                     if truthy (Some testimonials) \<and> length_less testimonials 3
                     then push_improvement index
                            ''Add more testimonials for stronger social proof'' None feedback
                     else feedback)
      in if \<not> truthy (map_of props ''showRatings'')
         then push_improvement index
                ''Show ratings to increase credibility''
                (Some [(''showRatings'', JBool True)]) fb1
         else fb1)"

text \<open>\<open>checkComponent\<close>: the blocks of the function in their order, each under the test
  of the component's name. Only the pricing table block can throw.\<close>

definition checkComponent ::
  "ComponentSpec \<Rightarrow> nat \<Rightarrow> DesignFeedback \<Rightarrow> js_error + DesignFeedback" where
  "checkComponent component index feedback =
     (let props = comp_props component;
          fb1 = (if comp_name component = ''Button''
                 then reviewButton props index feedback else feedback);
          fb2 = (if comp_name component = ''Card'' then reviewCard props index fb1 else fb1)
      in bindE (if comp_name component = ''PricingTable''
                then reviewPricingTable props index fb2 else Inr fb2)
          (\<lambda>fb3.
            let fb4 = (if comp_name component = ''Form'' then reviewForm props index fb3 else fb3);
                fb5 = (if comp_name component = ''Chart'' then reviewChart props index fb4 else fb4);
                fb6 = (if comp_name component = ''DashboardLayout''
                       then reviewDashboard props index fb5 else fb5);
                fb7 = (if comp_name component = ''TestimonialSection''
                       then reviewTestimonials props index fb6 else fb6)
            in Inr fb7))"

definition checkLayout :: "UISpec \<Rightarrow> DesignFeedback \<Rightarrow> DesignFeedback" where
  "checkLayout uiSpec feedback =
     (let cs = ui_components uiSpec;
          fb1 = (if length cs > 10
                 then push_issue Hierarchy Warning
                        ''Too many components may cause cognitive overload'' feedback
                 else feedback);
          hasHeroContent =
            list_ex (\<lambda>c. comp_name c = ''Card''
                        \<and> (map_of (comp_props c) ''size'' = Some (JStr ''lg'')
                           \<or> map_of (comp_props c) ''size'' = Some (JStr ''xl''))) cs;
          fb2 = (if \<not> hasHeroContent \<and> length cs > 0
                 then push_improvement 0
                        ''Consider making the first element larger for visual impact''
                        (Some [(''size'', JStr ''lg'')]) fb1
                 else fb1);
          hasButton = list_ex (\<lambda>c. comp_name c = ''Button'') cs
      in if \<not> hasButton \<and> \<not> list_ex (\<lambda>c. comp_name c = ''Form'') cs
         then push_issue Hierarchy Suggestion ''Consider adding a call-to-action button'' fb2
         else fb2)"

text \<open>The size of \<open>new Set(values)\<close>. Primitive values are compared by value; every
  array or object of a parsed tree is a different reference and counts on its own.\<close>

fun is_primitive :: "json \<Rightarrow> bool" where
  "is_primitive (JArr xs) = False"
| "is_primitive (JObj kvs) = False"
| "is_primitive v = True"

definition set_size :: "json list \<Rightarrow> nat" where
  "set_size vs = length (remdups (filter is_primitive vs))
                 + length (filter (\<lambda>v. \<not> is_primitive v) vs)"

text \<open>\<open>xs.map(c => c.props.k).filter(v => v !== undefined)\<close>.\<close>

definition defined_props :: "string \<Rightarrow> ComponentSpec list \<Rightarrow> json list" where
  "defined_props k cs = concat (map (\<lambda>c. case map_of (comp_props c) k of
                                             None \<Rightarrow> [] | Some v \<Rightarrow> [v]) cs)"

definition checkConsistency :: "ComponentSpec list \<Rightarrow> DesignFeedback \<Rightarrow> DesignFeedback" where
  "checkConsistency components feedback =
     (let buttons = filter (\<lambda>c. comp_name c = ''Button'') components;
          uniqueSizes = set_size (defined_props ''size'' buttons);
          fb1 = (if uniqueSizes > 2
                 then push_issue Consistency Warning
                        ''Too many different button sizes (use max 2 for consistency)'' feedback
                 else feedback);
          cards = filter (\<lambda>c. comp_name c = ''Card'') components;
          uniqueVariants = set_size (defined_props ''variant'' cards)
      in if uniqueVariants > 2
         then push_issue Consistency Suggestion
                ''Consider using fewer card variants for visual consistency'' fb1
         else fb1)"

definition issue_penalty :: "issue_severity \<Rightarrow> int" where
  "issue_penalty sev = (case sev of Error \<Rightarrow> 20 | Warning \<Rightarrow> 10 | Suggestion \<Rightarrow> 5)"

definition calculateScore :: "DesignFeedback \<Rightarrow> int" where
  "calculateScore feedback =
     (let score = fold (\<lambda>issue score. score - issue_penalty (issue_severity issue))
                    (fb_issues feedback) 100;
          score = (if length (fb_improvements feedback) > 0 \<and> length (fb_improvements feedback) \<le> 3
                   then min 100 (score + 5) else score)
      in max 0 score)"

definition analyzeDesign :: "UISpec \<Rightarrow> js_error + DesignFeedback" where
  "analyzeDesign uiSpec =
     bindE (foldE (\<lambda>(index, component) fb. checkComponent component index fb)
              (enumerate 0 (ui_components uiSpec))
              \<lparr> fb_score = 100, fb_issues = [], fb_improvements = [] \<rparr>)
       (\<lambda>fb. let fb = checkLayout uiSpec fb;
                  fb = checkConsistency (ui_components uiSpec) fb
              in Inr (fb\<lparr> fb_score := calculateScore fb \<rparr>))"

text \<open>One improvement: the patch is merged only when the improvement proposes properties
  and the component at its index exists.\<close>

definition applyImprovement :: "Improvement \<Rightarrow> ComponentSpec list \<Rightarrow> ComponentSpec list" where
  "applyImprovement improvement cs =
     (case imp_proposedProps improvement of
        None \<Rightarrow> cs
      | Some pp \<Rightarrow>
          (let i = imp_componentIndex improvement
           in if i < length cs
              then cs[i := (cs ! i)\<lparr> comp_props := spread (comp_props (cs ! i)) pp \<rparr>]
              else cs))"

definition applyImprovements :: "UISpec \<Rightarrow> DesignFeedback \<Rightarrow> UISpec" where
  "applyImprovements uiSpec feedback =
     (let improved = clone uiSpec
      in improved\<lparr> ui_components :=
           fold applyImprovement (fb_improvements feedback) (ui_components improved) \<rparr>)"

text \<open>The \<open>data\<close> of the critic's response: the feedback alone when an issue has severity
  \<open>error\<close>, the feedback and the improved UI otherwise.\<close>

datatype critic_data =
    FeedbackOnly DesignFeedback
  | FeedbackAndUI DesignFeedback UISpec

text \<open>\<open>review\<close> after the analysis: the branch on an issue of severity \<open>error\<close>.\<close>

definition review_outcome :: "UISpec \<Rightarrow> DesignFeedback \<Rightarrow> critic_data AgentResponse" where
  "review_outcome uiSpec feedback =
     (let hasCriticalIssues = list_ex (\<lambda>i. issue_severity i = Error) (fb_issues feedback)
      in if hasCriticalIssues
         then \<lparr> success = False,
                data = Some (FeedbackOnly feedback),
                errors = [\<lparr> err_code = ''DESIGN_ISSUES'',
                             err_message = ''Found ''
                               @ nat_to_string (length (filter (\<lambda>i. issue_severity i = Error)
                                                          (fb_issues feedback)))
                               @ '' critical design issues'',
                             err_severity = SevError \<rparr>],
                suggestions = Some (map imp_suggestion (fb_improvements feedback)),
                nextAgent = None \<rparr>
         else (let improvedUI = applyImprovements uiSpec feedback
               in \<lparr> success = True,
                    data = Some (FeedbackAndUI feedback improvedUI),
                    errors = [],
                    suggestions = None,
                    nextAgent = Some Accessibility \<rparr>))"

text \<open>\<open>review\<close>: an exception of the analysis is caught and reported.\<close>

definition review :: "UISpec \<Rightarrow> critic_data AgentResponse" where
  "review uiSpec =
     (case analyzeDesign uiSpec of
        Inl err \<Rightarrow> failure ''REVIEW_ERROR'' (error_String err)
      | Inr feedback \<Rightarrow> review_outcome uiSpec feedback)"

section \<open>The Accessibility Agent (agents/accessibility-agent.ts)\<close>

datatype impact = Critical | Serious | Moderate | Minor

record Violation =
  v_rule :: string
  v_impact :: impact
  v_description :: string
  v_fix :: string
  v_componentIndex :: "nat option"

record A11yWarning =
  w_rule :: string
  w_description :: string
  w_recommendation :: string

record AccessibilityReport =
  passed :: bool
  score :: int
  violations :: "Violation list"
  warnings :: "A11yWarning list"

definition push_violation ::
  "string \<Rightarrow> impact \<Rightarrow> string \<Rightarrow> string \<Rightarrow> nat \<Rightarrow> AccessibilityReport \<Rightarrow> AccessibilityReport" where
  "push_violation r i d f idx report =
     report\<lparr> violations := violations report @
          [\<lparr> v_rule = r, v_impact = i, v_description = d, v_fix = f,
              v_componentIndex = Some idx \<rparr>] \<rparr>"

definition push_warning ::
  "string \<Rightarrow> string \<Rightarrow> string \<Rightarrow> AccessibilityReport \<Rightarrow> AccessibilityReport" where
  "push_warning r d rec report =
     report\<lparr> warnings := warnings report @
          [\<lparr> w_rule = r, w_description = d, w_recommendation = rec \<rparr>] \<rparr>"

subsection \<open>Reading untyped values\<close>

text \<open>\<open>v[0]\<close> of a truthy value.\<close>

fun index0 :: "json \<Rightarrow> json option" where
  "index0 (JArr []) = None"
| "index0 (JArr (x # xs)) = Some x"
| "index0 (JStr []) = None"
| "index0 (JStr (c # cs)) = Some (JStr [c])"
| "index0 (JObj kvs) = map_of kvs ''0''"
| "index0 v = None"

text \<open>\<open>v?.k\<close>.\<close>

fun opt_member :: "json option \<Rightarrow> string \<Rightarrow> json option" where
  "opt_member None k = None"
| "opt_member (Some JNull) k = None"
| "opt_member (Some v) k = member_of v k"

fun isArray :: "json option \<Rightarrow> bool" where
  "isArray (Some (JArr xs)) = True"
| "isArray v = False"

fun mapE :: "('a \<Rightarrow> js_error + 'b) \<Rightarrow> 'a list \<Rightarrow> js_error + 'b list" where
  "mapE f [] = Inr []"
| "mapE f (x # xs) =
     (case f x of
        Inl e \<Rightarrow> Inl e
      | Inr y \<Rightarrow> (case mapE f xs of Inl e \<Rightarrow> Inl e | Inr ys \<Rightarrow> Inr (y # ys)))"

text \<open>A method of arrays (\<open>forEach\<close>, \<open>flatMap\<close>) called on a truthy value: on anything
  but an array it is not a function.\<close>

fun as_array :: "string \<Rightarrow> json \<Rightarrow> js_error + json list" where
  "as_array what (JArr xs) = Inr xs"
| "as_array what v = Inl (TypeError (what @ '' is not a function''))"

text \<open>The callback of \<open>flatMap\<close>, \<open>s => s.fields || []\<close>, with the flattening of its
  result by one level.\<close>

definition section_fields :: "json \<Rightarrow> js_error + json list" where
  "section_fields s =
     (case member s ''fields'' of
        Inl e \<Rightarrow> Inl e
      | Inr v \<Rightarrow> Inr (if truthy v
                       then (case v of Some (JArr xs) \<Rightarrow> xs | Some x \<Rightarrow> [x] | None \<Rightarrow> [])
                       else []))"

definition flatFields :: "json \<Rightarrow> js_error + json list" where
  "flatFields fieldsv =
     (if isArray (opt_member (index0 fieldsv) ''fields'')
      then bindE (as_array ''fields.flatMap'' fieldsv)
             (\<lambda>secs. bindE (mapE section_fields secs) (\<lambda>fss. Inr (concat fss)))
      else as_array ''flatFields.forEach'' fieldsv)"

text \<open>\<open>label?.toString().includes("*")\<close>: \<open>undefined\<close> when the label is \<open>undefined\<close>
  or \<open>null\<close>.\<close>

fun label_has_star :: "json option \<Rightarrow> bool" where
  "label_has_star None = False"
| "label_has_star (Some JNull) = False"
| "label_has_star (Some v) = str_includes (ToString v) ''*''"

subsection \<open>The checks of one component\<close>

definition checkFormField ::
  "nat \<Rightarrow> nat \<Rightarrow> json \<Rightarrow> AccessibilityReport \<Rightarrow> js_error + AccessibilityReport" where
  "checkFormField index fieldIndex field report =
     (case member field ''label'' of
        Inl e \<Rightarrow> Inl e
      | Inr label \<Rightarrow>
          (let name = js_String (member_of field ''name'');
               r1 = (if \<not> truthy label \<and> \<not> truthy (member_of field ''aria-label'')
                     then push_violation ''form-field-label'' Critical
                            (''Form field '' @ [CHR 0x22] @ name @ [CHR 0x22] @ '' at index ''
                               @ nat_to_string fieldIndex @ '' has no label'')
                            (''Add label prop to field '' @ [CHR 0x22] @ name @ [CHR 0x22])
                            index report
                     else report)
           in Inr (if truthy (member_of field ''required'') \<and> \<not> label_has_star label
                   then push_warning ''required-indication''
                          (''Required field '' @ [CHR 0x22] @ name @ [CHR 0x22] @ '' doesn''
                             @ [CHR 0x27] @ ''t visually indicate requirement'')
                          ''Required fields should be visually indicated (e.g., asterisk)'' r1
                   else r1)))"

definition checkForm :: "props \<Rightarrow> nat \<Rightarrow> AccessibilityReport \<Rightarrow> js_error + AccessibilityReport" where
  "checkForm props index report =
     (case js_or (map_of props ''fields'') (map_of props ''sections'') of
        None \<Rightarrow> Inr report
      | Some fieldsv \<Rightarrow>
          if truthy (Some fieldsv)
          then bindE (flatFields fieldsv)
                 (\<lambda>ffs. foldE (\<lambda>(fieldIndex, field) r. checkFormField index fieldIndex field r)
                           (enumerate 0 ffs) report)
          else Inr report)"

definition checkTestimonial ::
  "nat \<Rightarrow> json \<Rightarrow> AccessibilityReport \<Rightarrow> js_error + AccessibilityReport" where
  "checkTestimonial tIndex testimonial report =
     (case member testimonial ''authorAvatarUrl'' of
        Inl e \<Rightarrow> Inl e
      | Inr avatar \<Rightarrow>
          Inr (if truthy avatar \<and> \<not> truthy (member_of testimonial ''authorName'')
               then push_warning ''image-alt''
                      (''Testimonial '' @ nat_to_string tIndex
                         @ '' has avatar without author name for alt text'')
                      ''Ensure authorName is provided for avatar alt text'' report
               else report))"

definition checkTestimonials :: "props \<Rightarrow> AccessibilityReport \<Rightarrow> js_error + AccessibilityReport" where
  "checkTestimonials props report =
     (case map_of props ''testimonials'' of
        None \<Rightarrow> Inr report
      | Some testimonials \<Rightarrow>
          if truthy (Some testimonials)
          then bindE (as_array ''testimonials.forEach'' testimonials)
                 (\<lambda>ts. foldE (\<lambda>(tIndex, t) r. checkTestimonial tIndex t r) (enumerate 0 ts) report)
          else Inr report)"

definition checkNavItem ::
  "nat \<Rightarrow> nat \<Rightarrow> json \<Rightarrow> AccessibilityReport \<Rightarrow> js_error + AccessibilityReport" where
  "checkNavItem index itemIndex item report =
     (case member item ''icon'' of
        Inl e \<Rightarrow> Inl e
      | Inr icon \<Rightarrow>
          Inr (if truthy icon \<and> \<not> truthy (member_of item ''label'')
               then push_violation ''nav-item-label'' Serious
                      (''Navigation item '' @ nat_to_string itemIndex @ '' has icon but no label'')
                      ''Add label prop to navigation item'' index report
               else report))"

definition checkDashboard :: "props \<Rightarrow> nat \<Rightarrow> AccessibilityReport \<Rightarrow> js_error + AccessibilityReport" where
  "checkDashboard props index report =
     (case map_of props ''sidebar'' of
        None \<Rightarrow> Inr report
      | Some sidebar \<Rightarrow>
          if truthy (Some sidebar)
          then (case member_of sidebar ''navItems'' of
                  None \<Rightarrow> Inr report
                | Some navItems \<Rightarrow>
                    if truthy (Some navItems)
                    then bindE (as_array ''navItems.forEach'' navItems)
                           (\<lambda>items. foldE (\<lambda>(itemIndex, item) r.
                                              checkNavItem index itemIndex item r)
                                      (enumerate 0 items) report)
                    else Inr report)
          else Inr report)"

definition checkButton :: "props \<Rightarrow> nat \<Rightarrow> AccessibilityReport \<Rightarrow> AccessibilityReport" where
  "checkButton props index report =
     (let r1 = (if truthy (map_of props ''iconOnly'') \<and> \<not> truthy (map_of props ''ariaLabel'')
                   \<and> \<not> truthy (map_of props ''aria-label'')
                then push_violation ''button-name'' Critical
                       (''Button at index '' @ nat_to_string index
                          @ '' is icon-only without accessible name'')
                       ''Add ariaLabel prop to the Button component'' index report
                else report)
      in if \<not> truthy (map_of props ''iconOnly'') \<and> \<not> truthy (map_of props ''text'')
            \<and> \<not> truthy (map_of props ''children'')
         then push_violation ''button-name'' Critical
                (''Button at index '' @ nat_to_string index @ '' has no text content'')
                ''Add text prop or children to the Button'' index r1
         else r1)"

definition checkModal :: "props \<Rightarrow> nat \<Rightarrow> AccessibilityReport \<Rightarrow> AccessibilityReport" where
  "checkModal props index report =
     (let r1 = (if \<not> truthy (map_of props ''title'') \<and> \<not> truthy (map_of props ''aria-label'')
                   \<and> \<not> truthy (map_of props ''ariaLabel'')
                then push_violation ''modal-name'' Serious
                       (''Modal at index '' @ nat_to_string index @ '' has no accessible name'')
                       ''Add title or aria-label prop to the Modal'' index report
                else report)
      in if map_of props ''showCloseButton'' = Some (JBool False)
            \<and> \<not> truthy (map_of props ''closeOnEscape'')
            \<and> \<not> truthy (map_of props ''closeOnOverlayClick'')
         then push_violation ''modal-escape'' Serious
                (''Modal at index '' @ nat_to_string index @ '' has no way to close'')
                ''Enable at least one close mechanism: showCloseButton, closeOnEscape, or closeOnOverlayClick''
                index r1
         else r1)"

definition checkCard :: "props \<Rightarrow> nat \<Rightarrow> AccessibilityReport \<Rightarrow> AccessibilityReport" where
  "checkCard props index report =
     (let r1 = (if truthy (map_of props ''clickable'') \<and> \<not> truthy (map_of props ''href'')
                   \<and> \<not> truthy (map_of props ''onClick'')
                then push_warning ''card-interactive''
                       (''Clickable card at index '' @ nat_to_string index
                          @ '' should have clear interactive purpose'')
                       ''Add href or ensure onClick handles keyboard events'' report
                else report)
      in if truthy (map_of props ''imageUrl'') \<and> \<not> truthy (map_of props ''imageAlt'')
         then push_violation ''image-alt'' Serious
                (''Card image at index '' @ nat_to_string index @ '' has no alt text'')
                ''Add imageAlt prop with descriptive text'' index r1
         else r1)"

definition checkChart :: "props \<Rightarrow> nat \<Rightarrow> AccessibilityReport \<Rightarrow> AccessibilityReport" where
  "checkChart props index report =
     (if \<not> truthy (map_of props ''title'') \<and> \<not> truthy (map_of props ''aria-label'')
      then push_violation ''chart-label'' Serious
             (''Chart at index '' @ nat_to_string index @ '' has no accessible label'')
             ''Add title or aria-label to describe the chart data'' index report
      else report)"

definition checkComponentAccessibility ::
  "ComponentSpec \<Rightarrow> nat \<Rightarrow> AccessibilityReport \<Rightarrow> js_error + AccessibilityReport" where
  "checkComponentAccessibility component index report =
     (let props = comp_props component;
          r1 = (if comp_name component = ''Button'' then checkButton props index report else report)
      in bindE (if comp_name component = ''Form'' then checkForm props index r1 else Inr r1)
          (\<lambda>r2.
            let r3 = (if comp_name component = ''Modal'' then checkModal props index r2 else r2);
                r4 = (if comp_name component = ''Card'' then checkCard props index r3 else r3);
                r5 = (if comp_name component = ''Chart'' then checkChart props index r4 else r4)
            in bindE (if comp_name component = ''TestimonialSection''
                      then checkTestimonials props r5 else Inr r5)
                (\<lambda>r6. if comp_name component = ''DashboardLayout''
                       then checkDashboard props index r6 else Inr r6)))"

subsection \<open>The page, the score and the report\<close>

definition checkPageStructure :: "UISpec \<Rightarrow> AccessibilityReport \<Rightarrow> AccessibilityReport" where
  "checkPageStructure uiSpec report =
     (let cs = ui_components uiSpec;
          hasDashboard = list_ex (\<lambda>c. comp_name c = ''DashboardLayout'') cs;
          r1 = (if \<not> hasDashboard
                then push_warning ''landmark-main''
                       ''Consider using semantic landmarks for page structure''
                       ''Wrap content in main, nav, aside elements as appropriate'' report
                else report);
          hasHeadings = list_ex (\<lambda>c. truthy (js_or (map_of (comp_props c) ''title'')
                                                    (map_of (comp_props c) ''headline''))) cs
      in if \<not> hasHeadings \<and> length cs > 0
         then push_warning ''heading-structure''
                ''Page may lack proper heading structure''
                ''Add headings to organize content hierarchically'' r1
         else r1)"

definition impact_penalty :: "impact \<Rightarrow> int" where
  "impact_penalty i = (case i of Critical \<Rightarrow> 25 | Serious \<Rightarrow> 15 | Moderate \<Rightarrow> 10 | Minor \<Rightarrow> 5)"

definition calculateA11yScore :: "AccessibilityReport \<Rightarrow> int" where
  "calculateA11yScore report =
     (let score = fold (\<lambda>violation score. score - impact_penalty (v_impact violation))
                    (violations report) 100;
          score = fold (\<lambda>w score. score - 2) (warnings report) score
      in max 0 score)"

definition runAccessibilityChecks :: "UISpec \<Rightarrow> js_error + AccessibilityReport" where
  "runAccessibilityChecks uiSpec =
     bindE (foldE (\<lambda>(index, component) r. checkComponentAccessibility component index r)
              (enumerate 0 (ui_components uiSpec))
              \<lparr> passed = True, score = 100, violations = [], warnings = [] \<rparr>)
       (\<lambda>report.
          let report = checkPageStructure uiSpec report;
              report = report\<lparr> score := calculateA11yScore report \<rparr>;
              report = report\<lparr> passed :=
                         (length (filter (\<lambda>v. v_impact v = Critical) (violations report)) = 0) \<rparr>
          in Inr report)"

subsection \<open>Automatic fixes\<close>

definition applyFix :: "Violation \<Rightarrow> ComponentSpec list \<Rightarrow> ComponentSpec list" where
  "applyFix violation cs =
     (case v_componentIndex violation of
        None \<Rightarrow> cs
      | Some i \<Rightarrow>
          if i < length cs
          then (let props = comp_props (cs ! i);
                    props = (if v_rule violation = ''button-name'' \<and> truthy (map_of props ''iconOnly'')
                             then set_prop props ''ariaLabel''
                                    (JStr (js_String (js_or (map_of props ''icon'')
                                                            (Some (JStr ''Action''))) @ '' button''))
                             else props);
                    props = (if v_rule violation = ''modal-name'' \<and> \<not> truthy (map_of props ''title'')
                             then set_prop props ''aria-label'' (JStr ''Dialog'')
                             else props);
                    props = (if v_rule violation = ''image-alt'' \<and> truthy (map_of props ''imageUrl'')
                             then set_prop props ''imageAlt''
                                    (JStr (js_String (js_or (map_of props ''title'')
                                                            (Some (JStr ''Image'')))))
                             else props);
                    props = (if v_rule violation = ''chart-label''
                             then set_prop props ''aria-label''
                                    (JStr (''Chart: '' @ js_String (js_or (map_of props ''subtitle'')
                                                            (Some (JStr ''Data visualization'')))))
                             else props)
                in cs[i := (cs ! i)\<lparr> comp_props := props \<rparr>])
          else cs)"

definition applyAccessibilityFixes :: "UISpec \<Rightarrow> AccessibilityReport \<Rightarrow> UISpec" where
  "applyAccessibilityFixes uiSpec report =
     (let fixed = clone uiSpec
      in fixed\<lparr> ui_components := fold applyFix (violations report) (ui_components fixed) \<rparr>)"

record A11yData =
  a11y_report :: AccessibilityReport
  a11y_fixedUI :: UISpec

definition validate :: "UISpec \<Rightarrow> A11yData AgentResponse" where
  "validate uiSpec =
     (case runAccessibilityChecks uiSpec of
        Inl err \<Rightarrow> failure ''VALIDATION_ERROR'' (error_String err)
      | Inr report \<Rightarrow>
          (let fixedUI = applyAccessibilityFixes uiSpec report;
               criticalViolations = filter (\<lambda>v. v_impact v = Critical) (violations report)
           in if length criticalViolations > 0
              then \<lparr> success = False,
                     data = Some \<lparr> a11y_report = report, a11y_fixedUI = fixedUI \<rparr>,
                     errors = map (\<lambda>v. \<lparr> err_code = ''A11Y_'' @ toUpperCase (v_rule v),
                                          err_message = v_description v,
                                          err_severity = SevError \<rparr>) criticalViolations,
                     suggestions = Some (map v_fix criticalViolations),
                     nextAgent = None \<rparr>
              else \<lparr> success = True,
                     data = Some \<lparr> a11y_report = report, a11y_fixedUI = fixedUI \<rparr>,
                     errors = [],
                     suggestions = None,
                     nextAgent = Some ExportEngineer \<rparr>))"

section \<open>The Orchestrator (agents/orchestrator.ts)\<close>

datatype export_format = FmtReact | FmtJson | FmtHtml | FmtStorybook

datatype file_type = FtComponent | FtStyle | FtConfig

record ExportFile =
  file_name :: string
  file_content :: string
  file_type :: file_type

record ExportPackage =
  pkg_format :: export_format
  pkg_files :: "ExportFile list"
  pkg_instructions :: string

record PipelineError =
  pe_agent :: AgentRole
  pe_code :: string
  pe_message :: string

record PipelineResult =
  r_conversationId :: string
  r_success :: bool
  r_uiSpec :: "UISpec option"
  r_designFeedback :: "DesignFeedback option"
  r_accessibilityReport :: "AccessibilityReport option"
  r_exportPackage :: "ExportPackage option"
  r_errors :: "PipelineError list"
  r_messages :: "AgentMessage list"

text \<open>The type \<open>ExportOptions\<close> is declared in agents/export-engineer.ts, which is not
  among the sources; it is the type parameter \<open>'o\<close>.\<close>

record 'o OrchestratorOptions =
  autoApplyDesignImprovements :: bool
  autoApplyAccessibilityFixes :: bool
  skipDesignReview :: bool
  skipAccessibilityCheck :: bool
  exportOnSuccess :: bool
  exportOptions :: "'o option"

definition defaultOptions :: "'o \<Rightarrow> 'o OrchestratorOptions" where
  "defaultOptions xo =
     \<lparr> autoApplyDesignImprovements = True, autoApplyAccessibilityFixes = True,
       skipDesignReview = False, skipAccessibilityCheck = False, exportOnSuccess = True,
       exportOptions = Some xo \<rparr>"

text \<open>The fields of the class, with the counts of the calls made to the environment.\<close>

record 'o orchestrator =
  o_context :: AgentContext
  o_options :: "'o OrchestratorOptions"
  o_messages :: "AgentMessage list"
  o_ticks :: ticks

text \<open>The four agents the orchestrator creates and calls. The export engineer
  (agents/export-engineer.ts) is not among the sources: it is any function from the UI
  and the options to a response, or to an exception that escapes it.\<close>

record 'o agents =
  architect :: "env \<Rightarrow> ticks \<Rightarrow> AgentContext \<Rightarrow> string \<Rightarrow> UISpec AgentResponse \<times> ticks"
  critic :: "UISpec \<Rightarrow> critic_data AgentResponse"
  a11y :: "UISpec \<Rightarrow> A11yData AgentResponse"
  exporter :: "UISpec \<Rightarrow> 'o option \<Rightarrow> js_error + ExportPackage AgentResponse"

definition new_orchestrator :: "env \<Rightarrow> ticks \<Rightarrow> 'o OrchestratorOptions \<Rightarrow> 'o orchestrator" where
  "new_orchestrator e t opts =
     (let (cid, t') = uuidv4 e t
      in \<lparr> o_context = \<lparr> conversationId = cid, currentUI = None, history = [],
                          userPreferences = None \<rparr>,
           o_options = opts, o_messages = [], o_ticks = t' \<rparr>)"

definition logMessage ::
  "env \<Rightarrow> AgentRole \<Rightarrow> AgentRole \<Rightarrow> AgentActionType \<Rightarrow> payload \<Rightarrow> 'o orchestrator
   \<Rightarrow> 'o orchestrator" where
  "logMessage e from to action pl st =
     (let (mid, t1) = uuidv4 e (o_ticks st);
          (ts, t2) = toISOString e t1;
          message = \<lparr> msg_id = mid, msg_from = from, msg_to = to, msg_action = action,
                      msg_payload = pl, msg_timestamp = ts \<rparr>
      in st\<lparr> o_messages := o_messages st @ [message],
             o_context := (o_context st)\<lparr> history := history (o_context st) @ [message] \<rparr>,
             o_ticks := t2 \<rparr>)"

text \<open>\<open>response.errors?.[0]?.code || dflt\<close> and the same for the message.\<close>

definition first_code :: "AgentError list \<Rightarrow> string \<Rightarrow> string" where
  "first_code errs dflt =
     (case errs of [] \<Rightarrow> dflt | x # xs \<Rightarrow> if err_code x = [] then dflt else err_code x)"

definition first_message :: "AgentError list \<Rightarrow> string \<Rightarrow> string" where
  "first_message errs dflt =
     (case errs of [] \<Rightarrow> dflt | x # xs \<Rightarrow> if err_message x = [] then dflt else err_message x)"

definition push_error :: "AgentRole \<Rightarrow> AgentError list \<Rightarrow> string \<Rightarrow> string \<Rightarrow> PipelineResult
                           \<Rightarrow> PipelineResult" where
  "push_error ag errs dcode dmsg result =
     result\<lparr> r_errors := r_errors result @
          [\<lparr> pe_agent = ag, pe_code = first_code errs dcode,
              pe_message = first_message errs dmsg \<rparr>] \<rparr>"

text \<open>The critic's \<open>data\<close> read as \<open>{ feedback, improvedUI? }\<close>: the feedback alone has
  neither property.\<close>

fun data_feedback :: "critic_data \<Rightarrow> DesignFeedback option" where
  "data_feedback (FeedbackOnly fb) = None"
| "data_feedback (FeedbackAndUI fb ui) = Some fb"

fun data_improvedUI :: "critic_data \<Rightarrow> UISpec option" where
  "data_improvedUI (FeedbackOnly fb) = None"
| "data_improvedUI (FeedbackAndUI fb ui) = Some ui"

text \<open>The state of a run between two steps: the result so far, the orchestrator and the
  local variable \<open>currentUI\<close>.\<close>

record 'o run =
  run_result :: PipelineResult
  run_orch :: "'o orchestrator"
  run_currentUI :: UISpec

definition set_currentUI :: "UISpec \<Rightarrow> 'o run \<Rightarrow> 'o run" where
  "set_currentUI ui r =
     r\<lparr> run_currentUI := ui,
         run_result := (run_result r)\<lparr> r_uiSpec := Some ui \<rparr>,
         run_orch := (run_orch r)\<lparr> o_context := (o_context (run_orch r))\<lparr> currentUI := Some ui \<rparr> \<rparr> \<rparr>"

text \<open>Step 2: the design review, unless it is skipped. A failed review is recorded and
  the run goes on.\<close>

definition step_design :: "'o agents \<Rightarrow> env \<Rightarrow> 'o run \<Rightarrow> 'o run" where
  "step_design ags e r =
     (if skipDesignReview (o_options (run_orch r)) then r
      else
        (let r1 = r\<lparr> run_orch := logMessage e Orchestrator DesignCritic VALIDATE_DESIGN
                                      (PUISpec (run_currentUI r)) (run_orch r) \<rparr>;
             criticResponse = critic ags (run_currentUI r);
             r2 = (case data criticResponse of
                     None \<Rightarrow> r1
                   | Some criticData \<Rightarrow>
                       (let r' = r1\<lparr> run_result := (run_result r1)
                                      \<lparr> r_designFeedback := data_feedback criticData \<rparr> \<rparr>
                        in case data_improvedUI criticData of
                             Some improvedUI \<Rightarrow>
                               if autoApplyDesignImprovements (o_options (run_orch r))
                               then set_currentUI improvedUI r' else r'
                           | None \<Rightarrow> r'))
         in if \<not> success criticResponse
            then r2\<lparr> run_result := push_error DesignCritic (errors criticResponse)
                                       ''DESIGN_ISSUES'' ''Design review found issues''
                                       (run_result r2) \<rparr>
            else r2))"

text \<open>Step 3: the accessibility check, unless it is skipped. The second component is
  true when the function returns here, before the export.\<close>

definition step_a11y :: "'o agents \<Rightarrow> env \<Rightarrow> 'o run \<Rightarrow> 'o run \<times> bool" where
  "step_a11y ags e r =
     (if skipAccessibilityCheck (o_options (run_orch r)) then (r, False)
      else
        (let r1 = r\<lparr> run_orch := logMessage e Orchestrator Accessibility VALIDATE_ACCESSIBILITY
                                      (PUISpec (run_currentUI r)) (run_orch r) \<rparr>;
             a11yResponse = a11y ags (run_currentUI r);
             r2 = (case data a11yResponse of
                     None \<Rightarrow> r1
                   | Some a11yData \<Rightarrow>
                       (let r' = r1\<lparr> run_result := (run_result r1)
                                      \<lparr> r_accessibilityReport := Some (a11y_report a11yData) \<rparr> \<rparr>
                        in if autoApplyAccessibilityFixes (o_options (run_orch r))
                           then set_currentUI (a11y_fixedUI a11yData) r' else r'))
         in if \<not> success a11yResponse
            then (let r3 = r2\<lparr> run_result := push_error Accessibility (errors a11yResponse)
                                                  ''A11Y_ISSUES''
                                                  ''Accessibility validation found issues''
                                                  (run_result r2) \<rparr>
                  in case r_accessibilityReport (run_result r3) of
                       Some report \<Rightarrow>
                         if \<not> passed report
                         then (r3\<lparr> run_result := (run_result r3)
                                      \<lparr> r_messages := o_messages (run_orch r3) \<rparr> \<rparr>, True)
                         else (r3, False)
                     | None \<Rightarrow> (r3, False))
            else (r2, False)))"

text \<open>Step 4: the export, when it is asked for. The second component is an exception
  that escapes the export engineer; the \<open>catch\<close> of \<open>processRequest\<close> takes it.\<close>

definition step_export :: "'o agents \<Rightarrow> env \<Rightarrow> 'o run \<Rightarrow> 'o run \<times> js_error option" where
  "step_export ags e r =
     (if exportOnSuccess (o_options (run_orch r))
      then
        (let r1 = r\<lparr> run_orch := logMessage e Orchestrator ExportEngineer EXPORT_CODE
                                      (PUISpec (run_currentUI r)) (run_orch r) \<rparr>
         in case exporter ags (run_currentUI r) (exportOptions (o_options (run_orch r))) of
              Inl err \<Rightarrow> (r1, Some err)
            | Inr exportResponse \<Rightarrow>
                (case data exportResponse of
                   Some pkg \<Rightarrow>
                     if success exportResponse
                     then (r1\<lparr> run_result := (run_result r1)\<lparr> r_exportPackage := Some pkg \<rparr> \<rparr>,
                           None)
                     else (r1\<lparr> run_result := push_error ExportEngineer (errors exportResponse)
                                                  ''EXPORT_FAILED'' ''Failed to export code''
                                                  (run_result r1) \<rparr>, None)
                 | None \<Rightarrow>
                     (r1\<lparr> run_result := push_error ExportEngineer (errors exportResponse)
                                             ''EXPORT_FAILED'' ''Failed to export code''
                                             (run_result r1) \<rparr>, None)))
      else (r, None))"

definition finish :: "'o run \<Rightarrow> 'o run" where
  "finish r =
     r\<lparr> run_result := (run_result r)
          \<lparr> r_success := (r_uiSpec (run_result r) \<noteq> None
                           \<and> length (filter (\<lambda>e. pe_agent e = Accessibility
                                                   \<and> startsWith (pe_code e) ''A11Y_'')
                                       (r_errors (run_result r))) = 0),
            r_messages := o_messages (run_orch r) \<rparr> \<rparr>"

text \<open>\<open>processRequest\<close>. The result's \<open>messages\<close> is the orchestrator's list as it stands
  when the function returns.\<close>

definition orchestrator_processRequest ::
  "'o agents \<Rightarrow> env \<Rightarrow> 'o orchestrator \<Rightarrow> string \<Rightarrow> PipelineResult \<times> 'o orchestrator" where
  "orchestrator_processRequest ags e st userMessage =
     (let st1 = logMessage e User Orchestrator ANALYZE_REQUEST (PMessage userMessage) st;
          result = \<lparr> r_conversationId = conversationId (o_context st1), r_success = False,
                     r_uiSpec = None, r_designFeedback = None, r_accessibilityReport = None,
                     r_exportPackage = None, r_errors = [], r_messages = [] \<rparr>;
          st2 = logMessage e Orchestrator UIArchitect CREATE_UI (PUserMessage userMessage) st1;
          (architectResponse, t') = architect ags e (o_ticks st2) (o_context st2) userMessage;
          st3 = st2\<lparr> o_ticks := t' \<rparr>
      in case (success architectResponse, data architectResponse) of
           (True, Some ui) \<Rightarrow>
             (let r0 = set_currentUI ui \<lparr> run_result = result, run_orch = st3, run_currentUI = ui \<rparr>;
                  r2 = step_design ags e r0;
                  (r3, returned) = step_a11y ags e r2
              in if returned then (run_result r3, run_orch r3)
                 else (case step_export ags e r3 of
                         (r4, None) \<Rightarrow> (run_result (finish r4), run_orch r4)
                       | (r4, Some err) \<Rightarrow>
                           ((run_result r4)
                              \<lparr> r_errors := r_errors (run_result r4) @
                                   [\<lparr> pe_agent = Orchestrator, pe_code = ''ORCHESTRATION_ERROR'',
                                       pe_message = error_String err \<rparr>],
                                r_messages := o_messages (run_orch r4) \<rparr>, run_orch r4)))
         | _ \<Rightarrow>
             ((push_error UIArchitect (errors architectResponse) ''UNKNOWN'' ''Failed to create UI''
                 result)\<lparr> r_messages := o_messages st3 \<rparr>, st3))"

definition modifyUI ::
  "'o agents \<Rightarrow> env \<Rightarrow> 'o orchestrator \<Rightarrow> string \<Rightarrow> PipelineResult \<times> 'o orchestrator" where
  "modifyUI ags e st modificationRequest =
     (case currentUI (o_context st) of
        None \<Rightarrow>
          (\<lparr> r_conversationId = conversationId (o_context st), r_success = False,
             r_uiSpec = None, r_designFeedback = None, r_accessibilityReport = None,
             r_exportPackage = None,
             r_errors = [\<lparr> pe_agent = Orchestrator, pe_code = ''NO_UI'',
                           pe_message = ''No existing UI to modify. Use processRequest() first.'' \<rparr>],
             r_messages = o_messages st \<rparr>, st)
      | Some ui \<Rightarrow> orchestrator_processRequest ags e st modificationRequest)"

definition getCurrentUI :: "'o orchestrator \<Rightarrow> UISpec option" where
  "getCurrentUI st = currentUI (o_context st)"

definition reset :: "env \<Rightarrow> 'o orchestrator \<Rightarrow> 'o orchestrator" where
  "reset e st =
     (let (cid, t') = uuidv4 e (o_ticks st)
      in st\<lparr> o_context := \<lparr> conversationId = cid, currentUI = None, history = [],
                              userPreferences = None \<rparr>,
             o_messages := [], o_ticks := t' \<rparr>)"

text \<open>The orchestrator with the agents of this repository; the export engineer stays a
  parameter.\<close>

definition repo_agents ::
  "(UISpec \<Rightarrow> 'o option \<Rightarrow> js_error + ExportPackage AgentResponse) \<Rightarrow> 'o agents" where
  "repo_agents ex =
     \<lparr> architect = architect_processRequest, critic = review, a11y = validate, exporter = ex \<rparr>"

text \<open>What a run logged: the actions of the messages appended since the state
  \<open>st\<close>, and the UIs carried by the messages of one action.\<close>

definition run_messages :: "'o orchestrator \<Rightarrow> PipelineResult \<Rightarrow> AgentMessage list" where
  "run_messages st result = drop (length (o_messages st)) (r_messages result)"

fun payload_ui :: "payload \<Rightarrow> UISpec list" where
  "payload_ui (PUISpec ui) = [ui]"
| "payload_ui p = []"

definition logged_uis :: "AgentActionType \<Rightarrow> AgentMessage list \<Rightarrow> UISpec list" where
  "logged_uis a ms = concat (map (\<lambda>m. payload_ui (msg_payload m))
                               (filter (\<lambda>m. msg_action m = a) ms))"

section \<open>The export server (mcp/export/server.ts)\<close>

subsection \<open>\<open>JSON.stringify\<close>\<close>

definition hex_char :: "nat \<Rightarrow> char" where
  "hex_char n = ''0123456789abcdef'' ! n"

text \<open>QuoteJSONString, one code unit: the quote and the backslash are escaped, a control
  character has its short escape or \<open>\u00XX\<close>.\<close>

definition quote_char :: "char \<Rightarrow> string" where
  "quote_char c =
     (let n = (of_char c :: nat)
      in if n = 34 then [CHR 0x5C, CHR 0x22]
         else if n = 92 then [CHR 0x5C, CHR 0x5C]
         else if n = 8 then [CHR 0x5C, CHR ''b'']
         else if n = 9 then [CHR 0x5C, CHR ''t'']
         else if n = 10 then [CHR 0x5C, CHR ''n'']
         else if n = 12 then [CHR 0x5C, CHR ''f'']
         else if n = 13 then [CHR 0x5C, CHR ''r'']
         else if n < 32 then [CHR 0x5C, CHR ''u'', CHR ''0'', CHR ''0'', hex_char (n div 16), hex_char (n mod 16)]
         else [c])"

definition quote :: "string \<Rightarrow> string" where
  "quote s = [CHR 0x22] @ concat (map quote_char s) @ [CHR 0x22]"

text \<open>\<open>JSON.stringify(value, null, gap)\<close> at the indentation \<open>ind\<close>; \<open>gap\<close> is the string
  of spaces, empty when no indentation is asked for.\<close>

fun stringify :: "string \<Rightarrow> string \<Rightarrow> json \<Rightarrow> string" where
  "stringify gap ind JNull = ''null''"
| "stringify gap ind (JBool b) = (if b then ''true'' else ''false'')"
| "stringify gap ind (JNum n) = int_to_string n"
| "stringify gap ind (JStr s) = quote s"
| "stringify gap ind (JArr xs) =
     (if xs = [] then ''[]''
      else if gap = [] then ''['' @ join '','' (map (\<lambda>x. stringify gap (ind @ gap) x) xs) @ '']''
      else ''['' @ [CHR 0x0A] @ ind @ gap
           @ join ('','' @ [CHR 0x0A] @ ind @ gap) (map (\<lambda>x. stringify gap (ind @ gap) x) xs)
           @ [CHR 0x0A] @ ind @ '']'')"
| "stringify gap ind (JObj kvs) =
     (if kvs = [] then ''{}''
      else if gap = []
      then ''{'' @ join '','' (map (\<lambda>kv. quote (fst kv) @ '':'' @ stringify gap (ind @ gap) (snd kv)) kvs)
           @ ''}''
      else ''{'' @ [CHR 0x0A] @ ind @ gap
           @ join ('','' @ [CHR 0x0A] @ ind @ gap)
               (map (\<lambda>kv. quote (fst kv) @ '': '' @ stringify gap (ind @ gap) (snd kv)) kvs)
           @ [CHR 0x0A] @ ind @ ''}'')"

definition JSON_stringify :: "json \<Rightarrow> nat \<Rightarrow> string" where
  "JSON_stringify v n = stringify (replicate n CHR '' '') [] v"

subsection \<open>Code templates\<close>

record ToolComponent =
  tc_name :: string
  tc_props :: props

definition unlines :: "string list \<Rightarrow> string" where
  "unlines ls = concat (map (\<lambda>l. l @ [CHR 0x0A]) ls)"

text \<open>\<open>s.split("\n").join("\n" + pad)\<close>.\<close>

definition reindent :: "string \<Rightarrow> string \<Rightarrow> string" where
  "reindent pad s = concat (map (\<lambda>c. if c = CHR 0x0A then CHR 0x0A # pad else [c]) s)"

text \<open>\<open>[...new Set(xs)]\<close>: the first occurrence of each element, in order.\<close>

definition unique_first :: "string list \<Rightarrow> string list" where
  "unique_first xs = rev (remdups (rev xs))"

text \<open>One property of a component in the page: a string is quoted, a boolean is a flag,
  a number is bare, anything else (\<open>null\<close> too) is serialised.\<close>

fun pageProp :: "string \<times> json \<Rightarrow> string" where
  "pageProp (key, JStr s) = key @ ''='' @ [CHR 0x22] @ s @ [CHR 0x22]"
| "pageProp (key, JBool b) = (if b then key else key @ ''={false}'')"
| "pageProp (key, JNum n) = key @ ''={'' @ int_to_string n @ ''}''"
| "pageProp (key, v) = key @ ''={'' @ reindent ''        '' (JSON_stringify v 8) @ ''}''"

definition pageComponent :: "ToolComponent \<Rightarrow> string" where
  "pageComponent cmp =
     ''      <'' @ tc_name cmp @ [CHR 0x0A]
     @ ''        '' @ join ([CHR 0x0A] @ ''        '') (map pageProp (tc_props cmp)) @ [CHR 0x0A]
     @ ''      />''"

definition generatePageCode :: "ToolComponent list \<Rightarrow> bool \<Rightarrow> string \<Rightarrow> string" where
  "generatePageCode components typescript framework =
     (let imports = join '', '' (unique_first (map tc_name components));
          componentCode = join [CHR 0x0A, CHR 0x0A] (map pageComponent components)
      in if framework = ''nextjs''
         then [CHR 0x22] @ ''use client'' @ [CHR 0x22] @ '';'' @ [CHR 0x0A]
              @ [CHR 0x0A]
              @ ''import { '' @ imports @ '' } from '' @ [CHR 0x22] @ ''@/components/generative''
                @ [CHR 0x22] @ '';'' @ [CHR 0x0A]
              @ [CHR 0x0A]
              @ ''export default function GeneratedPage() {'' @ [CHR 0x0A]
              @ ''  return ('' @ [CHR 0x0A]
              @ ''    <main className='' @ [CHR 0x22] @ ''min-h-screen bg-slate-50 dark:bg-slate-950''
                @ [CHR 0x22] @ ''>'' @ [CHR 0x0A]
              @ componentCode @ [CHR 0x0A]
              @ ''    </main>'' @ [CHR 0x0A]
              @ ''  );'' @ [CHR 0x0A]
              @ ''}''
         else ''import { '' @ imports @ '' } from '' @ [CHR 0x22] @ ''@/components/generative''
                @ [CHR 0x22] @ '';'' @ [CHR 0x0A]
              @ [CHR 0x0A]
              @ ''function GeneratedPage() {'' @ [CHR 0x0A]
              @ ''  return ('' @ [CHR 0x0A]
              @ ''    <main className='' @ [CHR 0x22] @ ''min-h-screen bg-slate-50 dark:bg-slate-950''
                @ [CHR 0x22] @ ''>'' @ [CHR 0x0A]
              @ componentCode @ [CHR 0x0A]
              @ ''    </main>'' @ [CHR 0x0A]
              @ ''  );'' @ [CHR 0x0A]
              @ ''}'' @ [CHR 0x0A]
              @ [CHR 0x0A]
              @ ''export default GeneratedPage;'')"

definition generateTailwindCSS_lines :: "string list" where
  "generateTailwindCSS_lines =
    [''/* Custom styles for generated components */'',
     [],
     ''/* Base component customizations */'',
     ''.generated-ui {'',
     ''  @apply min-h-screen bg-slate-50 dark:bg-slate-950;'',
     ''}'',
     [],
     ''/* Button customizations */'',
     ''.generated-button-primary {'',
     ''  @apply bg-gradient-to-r from-violet-600 to-purple-600 text-white;'',
     ''  @apply hover:from-violet-700 hover:to-purple-700;'',
     ''  @apply shadow-lg shadow-violet-500/25;'',
     ''}'',
     [],
     ''/* Card customizations */'',
     ''.generated-card {'',
     ''  @apply bg-white dark:bg-slate-900;'',
     ''  @apply rounded-xl shadow-lg;'',
     ''  @apply border border-slate-200 dark:border-slate-800;'',
     ''}'',
     [],
     ''/* Form customizations */'',
     ''.generated-form-input {'',
     ''  @apply w-full px-4 py-2;'',
     ''  @apply border border-slate-200 dark:border-slate-700;'',
     ''  @apply rounded-lg bg-white dark:bg-slate-800;'',
     ''  @apply focus:ring-2 focus:ring-violet-500/50 focus:border-violet-500;'',
     ''}'',
     [],
     ''/* Chart customizations */'',
     ''.generated-chart {'',
     ''  @apply bg-white dark:bg-slate-900;'',
     ''  @apply rounded-xl border border-slate-200 dark:border-slate-800;'',
     ''  @apply p-6;'',
     ''}'',
     [],
     ''/* Animation classes */'',
     ''@keyframes fade-in {'',
     ''  from { opacity: 0; }'',
     ''  to { opacity: 1; }'',
     ''}'',
     [],
     ''@keyframes slide-up {'',
     ''  from { '',
     ''    opacity: 0;'',
     ''    transform: translateY(20px);'',
     ''  }'',
     ''  to { '',
     ''    opacity: 1;'',
     ''    transform: translateY(0);'',
     ''  }'',
     ''}'',
     [],
     ''.animate-fade-in {'',
     ''  animation: fade-in 0.3s ease-out;'',
     ''}'',
     [],
     ''.animate-slide-up {'',
     ''  animation: slide-up 0.4s ease-out;'',
     ''}'']"

definition generateTailwindCSS :: "ToolComponent list \<Rightarrow> string" where
  "generateTailwindCSS components = unlines generateTailwindCSS_lines"

subsection \<open>The tools\<close>

definition component_json :: "ToolComponent \<Rightarrow> json" where
  "component_json c = JObj [(''name'', JStr (tc_name c)), (''props'', JObj (tc_props c))]"

text \<open>\<open>export_json_schema\<close>: the text the tool returns. \<open>includeMetadata\<close> is optional
  and true when it is absent.\<close>

definition export_json_schema ::
  "env \<Rightarrow> ticks \<Rightarrow> ToolComponent list \<Rightarrow> bool option \<Rightarrow> string \<times> ticks" where
  "export_json_schema e t components includeMetadata =
     (let schema0 = [(''$schema'', JStr ''https://json-schema.org/draft/2020-12/schema''),
                     (''title'', JStr ''UI-Smith Generated UI''),
                     (''version'', JStr ''1.0.0'')];
          (schema1, t') =
             (if (case includeMetadata of None \<Rightarrow> True | Some b \<Rightarrow> b)
              then (let (now, t1) = toISOString e t
                    in (schema0 @ [(''metadata'', JObj
                          [(''generatedAt'', JStr now),
                           (''generatedBy'', JStr ''UI-Smith''),
                           (''componentCount'', JNum (int (length components)))])], t1))
              else (schema0, t));
          schema2 = schema1 @ [(''components'', JArr
                      (map (\<lambda>(index, cmp).
                              JObj [(''id'', JStr (''component-'' @ nat_to_string index)),
                                    (''type'', JStr (tc_name cmp)),
                                    (''props'', JObj (tc_props cmp))])
                         (enumerate 0 components)))]
      in (JSON_stringify (JObj schema2) 2, t'))"

record PackageFile =
  pf_path :: string
  pf_content :: string

definition readme :: "string \<Rightarrow> ToolComponent list \<Rightarrow> string \<Rightarrow> string" where
  "readme projectName components now =
     unlines
       [''# '' @ projectName,
        [],
        ''This UI was generated with [UI-Smith](https://github.com/your-repo/ui-smith).'',
        [],
        ''## Components Used'',
        [],
        join [CHR 0x0A] (map (\<lambda>c. ''- '' @ tc_name c) components),
        [],
        ''## Installation'',
        [],
        ''1. Copy the generated files to your project'',
        ''2. Ensure you have the required dependencies:'',
        [],
        [CHR 0x60, CHR 0x60, CHR 0x60] @ ''bash'',
        ''npm install @tambo-ai/react framer-motion lucide-react recharts'',
        [CHR 0x60, CHR 0x60, CHR 0x60],
        [],
        ''3. Import and use the components in your app'',
        [],
        ''## Customization'',
        [],
        ''Edit '' @ [CHR 0x60] @ ''generated.css'' @ [CHR 0x60]
          @ '' to customize styles or modify the component props directly.'',
        [],
        ''---'',
        ''Generated at '' @ now]"

text \<open>\<open>generate_export_package\<close>: the array \<open>files\<close> it builds. \<open>projectName\<close> is
  optional and \<open>generated-ui\<close> when it is absent. The clock is read twice, for the
  configuration and for the README.\<close>

definition package_files ::
  "env \<Rightarrow> ticks \<Rightarrow> ToolComponent list \<Rightarrow> string option \<Rightarrow> PackageFile list \<times> ticks" where
  "package_files e t components projectNameOpt =
     (let projectName = (case projectNameOpt of None \<Rightarrow> ''generated-ui'' | Some n \<Rightarrow> n);
          pageCode = generatePageCode components True ''nextjs'';
          css = generateTailwindCSS components;
          (now1, t1) = toISOString e t;
          config = JObj [(''name'', JStr projectName),
                         (''version'', JStr ''1.0.0''),
                         (''generatedAt'', JStr now1),
                         (''components'', JArr (map component_json components))];
          (now2, t2) = toISOString e t1
      in ([\<lparr> pf_path = projectName @ ''/app/page.tsx'', pf_content = pageCode \<rparr>,
           \<lparr> pf_path = projectName @ ''/styles/generated.css'', pf_content = css \<rparr>,
           \<lparr> pf_path = projectName @ ''/ui-smith.config.json'',
              pf_content = JSON_stringify config 2 \<rparr>,
           \<lparr> pf_path = projectName @ ''/README.md'',
              pf_content = readme projectName components now2 \<rparr>], t2))"

text \<open>The text the tool returns: the files with their sizes and previews, then in full.\<close>

definition generate_export_package ::
  "env \<Rightarrow> ticks \<Rightarrow> ToolComponent list \<Rightarrow> string option \<Rightarrow> string \<times> ticks" where
  "generate_export_package e t components projectNameOpt =
     (let projectName = (case projectNameOpt of None \<Rightarrow> ''generated-ui'' | Some n \<Rightarrow> n);
          (files, t') = package_files e t components projectNameOpt
      in (JSON_stringify
            (JObj [(''success'', JBool True),
                   (''projectName'', JStr projectName),
                   (''fileCount'', JNum (int (length files))),
                   (''files'', JArr (map (\<lambda>f. JObj
                        [(''path'', JStr (pf_path f)),
                         (''size'', JNum (int (length (pf_content f)))),
                         (''preview'', JStr (take 100 (pf_content f) @ ''...''))]) files)),
                   (''fullFiles'', JArr (map (\<lambda>f. JObj
                        [(''path'', JStr (pf_path f)),
                         (''content'', JStr (pf_content f))]) files))]) 2, t'))"

section \<open>Observations and example inputs\<close>

text \<open>No issue of the feedback has severity \<open>error\<close>.\<close>

definition no_error_issue :: "DesignFeedback \<Rightarrow> bool" where
  "no_error_issue fb = (\<not> list_ex (\<lambda>i. issue_severity i = Error) (fb_issues fb))"

definition count_issues :: "issue_severity \<Rightarrow> DesignFeedback \<Rightarrow> int" where
  "count_issues sev fb = int (length (filter (\<lambda>i. issue_severity i = sev) (fb_issues fb)))"

text \<open>The critique score in the words of the specification: the penalties are
  subtracted from 100, the result is floored at 0, and then the bonus of 5, capped at
  100, is added when there are one to three improvements.\<close>

definition claimed_critique_score :: "DesignFeedback \<Rightarrow> int" where
  "claimed_critique_score fb =
     (let floored = max 0 (100 - 20 * count_issues Error fb - 10 * count_issues Warning fb
                              - 5 * count_issues Suggestion fb);
          n = length (fb_improvements fb)
      in if 1 \<le> n \<and> n \<le> 3 then min 100 (floored + 5) else floored)"

text \<open>The integers that \<open>Number.isSafeInteger\<close> accepts: those of magnitude at most
  \<open>2^53 - 1\<close>, whose successor is held exactly.\<close>

definition isSafeInteger :: "int \<Rightarrow> bool" where
  "isSafeInteger n = (\<bar>n\<bar> \<le> 2 ^ 53 - 1)"

text \<open>The version of a specification, a missing one counting as 0.\<close>

definition version_or_zero :: "UISpec \<Rightarrow> int" where
  "version_or_zero ui =
     (case ui_metadata ui of
        None \<Rightarrow> 0
      | Some m \<Rightarrow> (case version m of None \<Rightarrow> 0 | Some v \<Rightarrow> v))"

definition example_env :: env where
  "example_env = \<lparr> uuid_gen = (\<lambda>n. ''uuid-'' @ nat_to_string n),
                    clock = (\<lambda>n. ''2026-01-01T00:00:0'' @ nat_to_string n @ ''.000Z'') \<rparr>"

definition empty_context :: AgentContext where
  "empty_context = \<lparr> conversationId = ''conversation'', currentUI = None, history = [],
                      userPreferences = None \<rparr>"

definition example_ui :: "ComponentSpec list \<Rightarrow> UISpec" where
  "example_ui cs =
     \<lparr> ui_id = ''ui-1'', ui_name = None, ui_description = None, ui_components = cs,
       ui_layout = None,
       ui_metadata = Some \<lparr> createdAt = None, updatedAt = None, version = Some 1 \<rparr> \<rparr>"

definition mk_component :: "string \<Rightarrow> props \<Rightarrow> ComponentSpec" where
  "mk_component n ps =
     \<lparr> comp_name = n, comp_props = ps, comp_children = None, comp_metadata = None \<rparr>"

definition icon_button :: ComponentSpec where
  "icon_button = mk_component ''Button'' [(''iconOnly'', JBool True)]"

definition eleven_icon_buttons :: UISpec where
  "eleven_icon_buttons = example_ui (replicate 11 icon_button)"

definition broken_pricing_ui :: UISpec where
  "broken_pricing_ui = example_ui [mk_component ''PricingTable'' [(''tiers'', JNum 5)]]"

definition modal_ui :: UISpec where
  "modal_ui = example_ui [mk_component ''Modal'' [(''isOpen'', JBool True)]]"

definition chart_ui :: UISpec where
  "chart_ui = example_ui [mk_component ''Chart'' [(''type'', JStr ''line'')]]"

text \<open>The chart at version \<open>2^53\<close>.\<close>

definition old_chart_ui :: UISpec where
  "old_chart_ui =
     chart_ui\<lparr> ui_metadata :=
       Some \<lparr> createdAt = None, updatedAt = None, version = Some 9007199254740992 \<rparr> \<rparr>"

definition icon_button_ui :: UISpec where
  "icon_button_ui = example_ui [icon_button]"

definition improved_chart_ui :: UISpec where
  "improved_chart_ui =
     example_ui [mk_component ''Chart''
                   [(''type'', JStr ''line''), (''title'', JStr ''Data Overview''),
                    (''size'', JStr ''lg'')]]"

definition fixed_icon_button_ui :: UISpec where
  "fixed_icon_button_ui =
     example_ui [mk_component ''Button''
                   [(''iconOnly'', JBool True), (''ariaLabel'', JStr ''Action button'')]]"

text \<open>The entries of a message log: the action and the payload of each message.\<close>

definition log_entries :: "AgentMessage list \<Rightarrow> (AgentActionType \<times> payload) list" where
  "log_entries ms = map (\<lambda>m. (msg_action m, msg_payload m)) ms"

text \<open>Agents for an example run: an export engineer that returns an empty package, an
  architect that answers with the icon-only button, and a critic that reports one issue
  of severity \<open>error\<close> and answers as \<open>review\<close> does on such a feedback.\<close>

definition stub_exporter :: "UISpec \<Rightarrow> unit option \<Rightarrow> js_error + ExportPackage AgentResponse" where
  "stub_exporter ui opts =
     Inr \<lparr> success = True,
           data = Some \<lparr> pkg_format = FmtReact, pkg_files = [], pkg_instructions = [] \<rparr>,
           errors = [], suggestions = None, nextAgent = None \<rparr>"

definition stub_architect ::
  "env \<Rightarrow> ticks \<Rightarrow> AgentContext \<Rightarrow> string \<Rightarrow> UISpec AgentResponse \<times> ticks" where
  "stub_architect e t ctx message =
     (\<lparr> success = True, data = Some icon_button_ui, errors = [], suggestions = None,
        nextAgent = Some DesignCritic \<rparr>, t)"

definition error_feedback :: DesignFeedback where
  "error_feedback =
     \<lparr> fb_score = 80,
       fb_issues = [\<lparr> issue_type = Contrast, issue_severity = Error,
                      issue_message = ''Text is unreadable'', issue_fix = None \<rparr>],
       fb_improvements = [] \<rparr>"

definition stub_critic :: "UISpec \<Rightarrow> critic_data AgentResponse" where
  "stub_critic ui = review_outcome ui error_feedback"

definition stub_agents :: "unit agents" where
  "stub_agents =
     \<lparr> architect = stub_architect, critic = stub_critic, a11y = validate,
       exporter = stub_exporter \<rparr>"

definition example_orchestrator :: "unit orchestrator" where
  "example_orchestrator = new_orchestrator example_env (0, 0) (defaultOptions ())"

text \<open>The accessibility checks of a UI complete with at least one critical violation.\<close>

definition has_critical :: "UISpec \<Rightarrow> bool" where
  "has_critical ui =
     (case runAccessibilityChecks ui of
        Inl err \<Rightarrow> False
      | Inr report \<Rightarrow> list_ex (\<lambda>v. v_impact v = Critical) (violations report))"

text \<open>The second list is the first with messages appended, whose entries are given.\<close>

definition appended ::
  "AgentMessage list \<Rightarrow> AgentMessage list \<Rightarrow> (AgentActionType \<times> payload) list \<Rightarrow> bool" where
  "appended old new es = (\<exists>ms. new = old @ ms \<and> log_entries ms = es)"

definition example_tool_components :: "ToolComponent list" where
  "example_tool_components =
     [\<lparr> tc_name = ''Button'', tc_props = [(''text'', JStr ''Get Started''), (''size'', JStr ''lg'')] \<rparr>]"

text \<open>An environment with the clock of \<open>example_env\<close> and other identifiers.\<close>

definition other_env :: env where
  "other_env = \<lparr> uuid_gen = (\<lambda>n. ''other-'' @ nat_to_string n), clock = clock example_env \<rparr>"

section \<open>The request classifier and the fallback\<close>

lemma analyzeRequestType_no_prior:
  "currentUI ctx = None \<Longrightarrow> analyzeRequestType ctx message = Create"
  by (simp add: analyzeRequestType_def Let_def)

lemma analyzeRequestType_cases:
  "analyzeRequestType ctx message = Create
   \<or> (analyzeRequestType ctx message = Modify \<and> currentUI ctx \<noteq> None)"
  by (simp add: analyzeRequestType_def Let_def)

lemma architect_error_codes:
  "list_all (\<lambda>e. err_code e = ''PROCESSING_ERROR'')
     (errors (fst (architect_processRequest e t ctx message)))"
proof -
  consider (c) "analyzeRequestType ctx message = Create"
    | (m) cur where "analyzeRequestType ctx message = Modify" "currentUI ctx = Some cur"
    using analyzeRequestType_cases [of ctx message] by auto
  then show ?thesis
  proof cases
    case c
    then show ?thesis
      by (simp add: architect_processRequest_def architect_dispatch_def split: prod.splits)
  next
    case m
    then show ?thesis
      by (simp add: architect_processRequest_def architect_dispatch_def failure_def split: prod.splits sum.splits)
  qed
qed

text \<open>
  C10. For every request and every conversation context the classifier answers
  \<open>create\<close> or \<open>modify\<close>, never \<open>unknown\<close>; without a current UI it answers
  \<open>create\<close>; and no response of the architect carries the code \<open>UNKNOWN_REQUEST\<close>.
\<close>

theorem classifier_never_unknown:
  "analyzeRequestType ctx message \<noteq> Unknown
   \<and> analyzeRequestType (ctx\<lparr> currentUI := None \<rparr>) message = Create
   \<and> \<not> list_ex (\<lambda>e. err_code e = ''UNKNOWN_REQUEST'')
          (errors (fst (architect_processRequest e t ctx message)))"
proof -
  have a: "analyzeRequestType ctx message \<noteq> Unknown"
    using analyzeRequestType_cases [of ctx message] by auto
  have b: "analyzeRequestType (ctx\<lparr> currentUI := None \<rparr>) message = Create"
    by (rule analyzeRequestType_no_prior) simp
  have c: "\<not> list_ex (\<lambda>e. err_code e = ''UNKNOWN_REQUEST'')
              (errors (fst (architect_processRequest e t ctx message)))"
    using architect_error_codes [of e t ctx message]
    by (auto simp: list_ex_iff list_all_iff)
  from a b c show ?thesis by simp
qed

theorem classifier_never_unknown_witness:
  "analyzeRequestType empty_context ''asdf'' \<noteq> Unknown
   \<and> analyzeRequestType (empty_context\<lparr> currentUI := None \<rparr>) ''asdf'' = Create
   \<and> \<not> list_ex (\<lambda>e. err_code e = ''UNKNOWN_REQUEST'')
          (errors (fst (architect_processRequest example_env (0, 0) empty_context ''asdf'')))"
  using classifier_never_unknown [of empty_context "''asdf''" example_env "(0, 0)"] .

lemma extractKeywords_no_topic:
  assumes "\<not> list_ex (\<lambda>t. str_includes (toLowerCase d) t) (concat (map snd componentKeywords))"
  shows "extractKeywords d
         = map (\<lambda>style. ''style:'' @ style)
             (filter (\<lambda>style. str_includes (toLowerCase d) style) styleKeywords)"
  using assms by (simp add: extractKeywords_def componentKeywords_def Let_def)

lemma selectComponents_fallback:
  assumes "set keywords \<inter> {''pricing'', ''dashboard'', ''chart'', ''form'', ''modal'',
                             ''testimonial'', ''card''} = {}"
    and "\<not> str_includes (toLowerCase d) ''hero''"
    and "\<not> str_includes (toLowerCase d) ''feature''"
  shows "selectComponents keywords d = [createCardSpec d, createButtonSpec d]"
  using assms by (simp add: selectComponents_def Let_def)

lemma style_keywords_disjoint:
  "set (map (\<lambda>style. ''style:'' @ style) xs)
     \<inter> {''pricing'', ''dashboard'', ''chart'', ''form'', ''modal'', ''testimonial'', ''card''} = {}"
  by auto

text \<open>
  C8. A request that is classified \<open>create\<close> and whose lower-cased text includes no
  term of the topic keyword table, nor \<open>hero\<close>, \<open>feature\<close> or \<open>landing\<close> (\<open>cta\<close> is a
  term of the table), yields a specification with exactly two components: the card, then
  the call-to-action button.
\<close>

theorem fallback_two_components:
  assumes "\<not> list_ex (\<lambda>t. str_includes (toLowerCase d) t) (concat (map snd componentKeywords))"
    and "\<not> str_includes (toLowerCase d) ''hero''"
    and "\<not> str_includes (toLowerCase d) ''feature''"
    and "\<not> str_includes (toLowerCase d) ''landing''"
    and "analyzeRequestType ctx d = Create"
  shows "success (fst (architect_processRequest e t ctx d))
         \<and> map_option ui_components (data (fst (architect_processRequest e t ctx d)))
             = Some [createCardSpec d, createButtonSpec d]
         \<and> map_option (length \<circ> ui_components) (data (fst (architect_processRequest e t ctx d)))
             = Some 2
         \<and> map comp_name [createCardSpec d, createButtonSpec d] = [''Card'', ''Button'']"
proof -
  have dj: "set (extractKeywords d)
              \<inter> {''pricing'', ''dashboard'', ''chart'', ''form'', ''modal'', ''testimonial'', ''card''} = {}"
    unfolding extractKeywords_no_topic [OF assms(1)] by (rule style_keywords_disjoint)
  have k: "selectComponents (extractKeywords d) d = [createCardSpec d, createButtonSpec d]"
    using dj assms(2,3) by (rule selectComponents_fallback)
  show ?thesis
    using assms(5) k
    by (simp add: architect_processRequest_def architect_dispatch_def createNewUI_def Let_def uuidv4_def toISOString_def
          createCardSpec_def createButtonSpec_def split: prod.splits)
qed

theorem fallback_two_components_witness:
  "success (fst (architect_processRequest example_env (0, 0) empty_context ''asdf''))
   \<and> map_option ui_components
         (data (fst (architect_processRequest example_env (0, 0) empty_context ''asdf'')))
       = Some [createCardSpec ''asdf'', createButtonSpec ''asdf'']
   \<and> map_option (length \<circ> ui_components)
         (data (fst (architect_processRequest example_env (0, 0) empty_context ''asdf'')))
       = Some 2
   \<and> map comp_name [createCardSpec ''asdf'', createButtonSpec ''asdf''] = [''Card'', ''Button'']"
proof -
  have h1: "\<not> list_ex (\<lambda>t. str_includes (toLowerCase ''asdf'') t)
               (concat (map snd componentKeywords))"
    by (simp add: toLowerCase_def lower_char_def componentKeywords_def str_includes_def sublist_code)
  have h2: "\<not> str_includes (toLowerCase ''asdf'') ''hero''"
    by (simp add: toLowerCase_def lower_char_def str_includes_def sublist_code)
  have h3: "\<not> str_includes (toLowerCase ''asdf'') ''feature''"
    by (simp add: toLowerCase_def lower_char_def str_includes_def sublist_code)
  have h4: "\<not> str_includes (toLowerCase ''asdf'') ''landing''"
    by (simp add: toLowerCase_def lower_char_def str_includes_def sublist_code)
  have h5: "analyzeRequestType empty_context ''asdf'' = Create"
    by (simp add: analyzeRequestType_def empty_context_def Let_def)
  show ?thesis
    using fallback_two_components [OF h1 h2 h3 h4 h5, of example_env "(0, 0)"] .
qed

section \<open>The design critique\<close>

lemma no_error_push_issue:
  "no_error_issue (push_issue ty sev m fb) = (sev \<noteq> Error \<and> no_error_issue fb)"
  by (auto simp: no_error_issue_def push_issue_def)

lemma no_error_push_improvement:
  "no_error_issue (push_improvement i s pp fb) = no_error_issue fb"
  by (simp add: no_error_issue_def push_improvement_def)

lemmas no_error_push = no_error_push_issue no_error_push_improvement

lemma foldE_invariant:
  assumes "\<And>x s s'. P s \<Longrightarrow> f x s = Inr s' \<Longrightarrow> P s'"
    and "P s" and "foldE f xs s = Inr s'"
  shows "P s'"
  using assms(2,3)
proof (induction xs arbitrary: s)
  case Nil
  then show ?case by simp
next
  case (Cons x xs)
  then show ?case
    by (auto split: sum.splits intro: assms(1))
qed

lemma reviewPricingTable_no_error:
  "no_error_issue fb \<Longrightarrow> reviewPricingTable ps i fb = Inr fb' \<Longrightarrow> no_error_issue fb'"
  by (auto simp: reviewPricingTable_def Let_def no_error_push
           split: if_splits option.splits json.splits sum.splits)

lemma reviewButton_no_error: "no_error_issue (reviewButton ps i fb) = no_error_issue fb"
  by (simp add: reviewButton_def Let_def no_error_push)

lemma reviewCard_no_error: "no_error_issue (reviewCard ps i fb) = no_error_issue fb"
  by (simp add: reviewCard_def Let_def no_error_push)

lemma reviewForm_no_error: "no_error_issue (reviewForm ps i fb) = no_error_issue fb"
  by (simp add: reviewForm_def Let_def no_error_push)

lemma reviewChart_no_error: "no_error_issue (reviewChart ps i fb) = no_error_issue fb"
  by (simp add: reviewChart_def Let_def no_error_push)

lemma reviewDashboard_no_error: "no_error_issue (reviewDashboard ps i fb) = no_error_issue fb"
  by (simp add: reviewDashboard_def Let_def no_error_push split: option.splits)

lemma reviewTestimonials_no_error:
  "no_error_issue (reviewTestimonials ps i fb) = no_error_issue fb"
  by (simp add: reviewTestimonials_def Let_def no_error_push split: option.splits)

lemmas review_no_error = reviewButton_no_error reviewCard_no_error reviewForm_no_error
  reviewChart_no_error reviewDashboard_no_error reviewTestimonials_no_error

lemma checkComponent_no_error:
  assumes "no_error_issue fb" and "checkComponent c i fb = Inr fb'"
  shows "no_error_issue fb'"
  using assms
  by (auto simp: checkComponent_def Let_def bindE_def review_no_error
           dest: reviewPricingTable_no_error split: sum.splits if_splits)

lemma checkLayout_no_error: "no_error_issue (checkLayout ui fb) = no_error_issue fb"
  by (simp add: checkLayout_def Let_def no_error_push)

lemma checkConsistency_no_error: "no_error_issue (checkConsistency cs fb) = no_error_issue fb"
  by (simp add: checkConsistency_def Let_def no_error_push)

lemma analyzeDesign_result:
  assumes "analyzeDesign ui = Inr fb"
  obtains fb0 where
    "foldE (\<lambda>(index, component) fb. checkComponent component index fb)
       (enumerate 0 (ui_components ui))
       \<lparr> fb_score = 100, fb_issues = [], fb_improvements = [] \<rparr> = Inr fb0"
    and "fb = (checkConsistency (ui_components ui) (checkLayout ui fb0))
                \<lparr> fb_score := calculateScore (checkConsistency (ui_components ui)
                                                  (checkLayout ui fb0)) \<rparr>"
  using assms by (auto simp: analyzeDesign_def bindE_def Let_def split: sum.splits)

lemma analyzeDesign_no_error:
  assumes "analyzeDesign ui = Inr fb"
  shows "no_error_issue fb"
proof -
  from assms obtain fb0 where
    f: "foldE (\<lambda>(index, component) fb. checkComponent component index fb)
          (enumerate 0 (ui_components ui))
          \<lparr> fb_score = 100, fb_issues = [], fb_improvements = [] \<rparr> = Inr fb0"
    and r: "fb = (checkConsistency (ui_components ui) (checkLayout ui fb0))
                   \<lparr> fb_score := calculateScore (checkConsistency (ui_components ui)
                                                     (checkLayout ui fb0)) \<rparr>"
    by (rule analyzeDesign_result)
  have "no_error_issue fb0"
  proof (rule foldE_invariant [OF _ _ f])
    show "no_error_issue \<lparr> fb_score = 100, fb_issues = [], fb_improvements = [] \<rparr>"
      by (simp add: no_error_issue_def)
  next
    fix x :: "nat \<times> ComponentSpec" and s s'
    assume "no_error_issue s"
      and "(case x of (index, component) \<Rightarrow> checkComponent component index) s = Inr s'"
    then show "no_error_issue s'"
      by (cases x) (auto dest: checkComponent_no_error)
  qed
  then have "no_error_issue (checkConsistency (ui_components ui) (checkLayout ui fb0))"
    by (simp add: checkConsistency_no_error checkLayout_no_error)
  then show ?thesis
    by (simp add: r no_error_issue_def)
qed

text \<open>The branch of \<open>review\<close> for an issue of severity \<open>error\<close> answers with the
  feedback alone: it does not apply the improvements.\<close>

lemma review_outcome_error_issue:
  assumes "list_ex (\<lambda>i. issue_severity i = Error) (fb_issues feedback)"
  shows "\<not> success (review_outcome uiSpec feedback)
         \<and> data (review_outcome uiSpec feedback) = Some (FeedbackOnly feedback)"
  using assms by (simp add: review_outcome_def)

text \<open>
  C7, as the code has it. For every specification whose analysis completes, no reported
  issue has severity \<open>error\<close>, so the critique is never blocking: the review succeeds and
  carries the computed feedback together with the improved specification (the input with
  the improvements applied). Blocking and the presence of an \<open>error\<close> issue agree, both
  being false.
\<close>

theorem review_never_blocks:
  assumes "analyzeDesign uiSpec = Inr feedback"
  shows "\<not> list_ex (\<lambda>i. issue_severity i = Error) (fb_issues feedback)
         \<and> success (review uiSpec)
         \<and> data (review uiSpec) = Some (FeedbackAndUI feedback (applyImprovements uiSpec feedback))
         \<and> (\<not> success (review uiSpec))
             = list_ex (\<lambda>i. issue_severity i = Error) (fb_issues feedback)"
  using analyzeDesign_no_error [OF assms] assms
  by (simp add: review_def review_outcome_def no_error_issue_def Let_def)

theorem review_never_blocks_witness:
  "analyzeDesign chart_ui = Inr (projr (analyzeDesign chart_ui))
   \<and> \<not> list_ex (\<lambda>i. issue_severity i = Error) (fb_issues (projr (analyzeDesign chart_ui)))
   \<and> success (review chart_ui)
   \<and> data (review chart_ui)
       = Some (FeedbackAndUI (projr (analyzeDesign chart_ui))
                 (applyImprovements chart_ui (projr (analyzeDesign chart_ui))))"
proof -
  have h: "analyzeDesign chart_ui = Inr (projr (analyzeDesign chart_ui))"
    by code_simp
  show ?thesis
    using h review_never_blocks [OF h] by simp
qed

text \<open>The claim fails where the analysis throws: the pricing table's \<open>tiers\<close> is read as
  an array without a check. The review then fails, which the orchestrator records as a
  failed critique, while no issue was reported and the response carries neither feedback
  nor specification.\<close>

theorem review_blocking_counterexample:
  "\<not> success (review broken_pricing_ui)
   \<and> data (review broken_pricing_ui) = None
   \<and> map err_code (errors (review broken_pricing_ui)) = [''REVIEW_ERROR'']
   \<and> analyzeDesign broken_pricing_ui = Inl (TypeError ''tiers.some is not a function'')"
  by code_simp

section \<open>The scores\<close>

lemma fold_minus: "fold (\<lambda>x (s::int). s - f x) xs a = a - sum_list (map f xs)"
  by (induction xs arbitrary: a) auto

lemma penalties_sum:
  "sum_list (map (\<lambda>i. issue_penalty (issue_severity i)) xs)
   = 20 * int (length (filter (\<lambda>i. issue_severity i = Error) xs))
     + 10 * int (length (filter (\<lambda>i. issue_severity i = Warning) xs))
     + 5 * int (length (filter (\<lambda>i. issue_severity i = Suggestion) xs))"
  by (induction xs) (auto simp: issue_penalty_def split: issue_severity.splits)

lemma calculateScore_formula:
  "calculateScore fb =
     (let raw = 100 - 20 * count_issues Error fb - 10 * count_issues Warning fb
                    - 5 * count_issues Suggestion fb;
          n = length (fb_improvements fb)
      in max 0 (if 1 \<le> n \<and> n \<le> 3 then min 100 (raw + 5) else raw))"
proof -
  have n: "(1 \<le> length (fb_improvements fb)) = (0 < length (fb_improvements fb))"
    by (cases "fb_improvements fb") simp_all
  show ?thesis
    unfolding calculateScore_def Let_def fold_minus penalties_sum count_issues_def n
    by (simp add: algebra_simps)
qed

lemma calculateScore_range: "0 \<le> calculateScore fb \<and> calculateScore fb \<le> 100"
proof -
  have "0 \<le> sum_list (map (\<lambda>i. issue_penalty (issue_severity i)) (fb_issues fb))"
    by (rule sum_list_nonneg) (auto simp: issue_penalty_def split: issue_severity.splits)
  then show ?thesis
    by (auto simp: calculateScore_def Let_def fold_minus)
qed

lemma calculateA11yScore_range: "0 \<le> calculateA11yScore r \<and> calculateA11yScore r \<le> 100"
proof -
  have "0 \<le> sum_list (map (\<lambda>v. impact_penalty (v_impact v)) (violations r))"
    by (rule sum_list_nonneg) (auto simp: impact_penalty_def split: impact.splits)
  moreover have "0 \<le> sum_list (map (\<lambda>w. 2::int) (warnings r))"
    by (rule sum_list_nonneg) auto
  ultimately show ?thesis
    by (auto simp: calculateA11yScore_def Let_def fold_minus)
qed

lemma analyzeDesign_score:
  assumes "analyzeDesign ui = Inr fb"
  shows "fb_score fb = calculateScore fb"
proof -
  from assms obtain fb0 where
    r: "fb = (checkConsistency (ui_components ui) (checkLayout ui fb0))
               \<lparr> fb_score := calculateScore (checkConsistency (ui_components ui)
                                                 (checkLayout ui fb0)) \<rparr>"
    by (rule analyzeDesign_result)
  show ?thesis
    by (simp add: r calculateScore_def)
qed

lemma runAccessibilityChecks_result:
  assumes "runAccessibilityChecks ui = Inr report"
  obtains r0 where
    "report = r0\<lparr> score := calculateA11yScore r0,
                  passed := (length (filter (\<lambda>v. v_impact v = Critical) (violations r0)) = 0) \<rparr>"
  using assms by (auto simp: runAccessibilityChecks_def bindE_def Let_def split: sum.splits)

lemma runAccessibilityChecks_score:
  assumes "runAccessibilityChecks ui = Inr report"
  shows "score report = calculateA11yScore report"
proof -
  from assms obtain r0 where
    r: "report = r0\<lparr> score := calculateA11yScore r0,
                     passed := (length (filter (\<lambda>v. v_impact v = Critical) (violations r0)) = 0) \<rparr>"
    by (rule runAccessibilityChecks_result)
  show ?thesis
    by (simp add: r calculateA11yScore_def)
qed

text \<open>
  C4, as the code has it. The critique score is 100 minus 20 for each issue of severity
  \<open>error\<close>, 10 for each \<open>warning\<close> and 5 for each \<open>suggestion\<close>; when there are one to
  three improvements 5 is added and the sum is capped at 100; and the result is floored at
  0 last, after the bonus. The critique score and the score of the accessibility report
  are both between 0 and 100.
\<close>

theorem critique_score_bonus_before_floor:
  "(analyzeDesign uiSpec = Inr fb \<longrightarrow>
      fb_score fb =
        (let raw = 100 - 20 * count_issues Error fb - 10 * count_issues Warning fb
                       - 5 * count_issues Suggestion fb;
             n = length (fb_improvements fb)
         in max 0 (if 1 \<le> n \<and> n \<le> 3 then min 100 (raw + 5) else raw))
      \<and> 0 \<le> fb_score fb \<and> fb_score fb \<le> 100)
   \<and> (runAccessibilityChecks uiSpec' = Inr report \<longrightarrow>
      0 \<le> score report \<and> score report \<le> 100)"
proof (intro conjI impI)
  assume a: "analyzeDesign uiSpec = Inr fb"
  show "fb_score fb =
        (let raw = 100 - 20 * count_issues Error fb - 10 * count_issues Warning fb
                       - 5 * count_issues Suggestion fb;
             n = length (fb_improvements fb)
         in max 0 (if 1 \<le> n \<and> n \<le> 3 then min 100 (raw + 5) else raw))"
    unfolding analyzeDesign_score [OF a] by (rule calculateScore_formula)
  show "0 \<le> fb_score fb" "fb_score fb \<le> 100"
    using calculateScore_range [of fb] by (simp_all add: analyzeDesign_score [OF a])
next
  assume a: "runAccessibilityChecks uiSpec' = Inr report"
  show "0 \<le> score report" "score report \<le> 100"
    using calculateA11yScore_range [of report]
    by (simp_all add: runAccessibilityChecks_score [OF a])
qed

theorem critique_score_bonus_before_floor_witness:
  "analyzeDesign eleven_icon_buttons = Inr (projr (analyzeDesign eleven_icon_buttons))
   \<and> runAccessibilityChecks eleven_icon_buttons
       = Inr (projr (runAccessibilityChecks eleven_icon_buttons))
   \<and> fb_score (projr (analyzeDesign eleven_icon_buttons)) = 0
   \<and> count_issues Warning (projr (analyzeDesign eleven_icon_buttons)) = 12
   \<and> length (fb_improvements (projr (analyzeDesign eleven_icon_buttons))) = 1
   \<and> 0 \<le> score (projr (runAccessibilityChecks eleven_icon_buttons))
   \<and> score (projr (runAccessibilityChecks eleven_icon_buttons)) \<le> 100"
proof -
  have h1: "analyzeDesign eleven_icon_buttons = Inr (projr (analyzeDesign eleven_icon_buttons))"
    by code_simp
  have h2: "runAccessibilityChecks eleven_icon_buttons
              = Inr (projr (runAccessibilityChecks eleven_icon_buttons))"
    by code_simp
  have h3: "count_issues Warning (projr (analyzeDesign eleven_icon_buttons)) = 12"
    by code_simp
  have h4: "count_issues Error (projr (analyzeDesign eleven_icon_buttons)) = 0"
    by code_simp
  have h5: "count_issues Suggestion (projr (analyzeDesign eleven_icon_buttons)) = 0"
    by code_simp
  have h6: "length (fb_improvements (projr (analyzeDesign eleven_icon_buttons))) = 1"
    by code_simp
  show ?thesis
    using critique_score_bonus_before_floor
            [of eleven_icon_buttons "projr (analyzeDesign eleven_icon_buttons)"
                eleven_icon_buttons "projr (runAccessibilityChecks eleven_icon_buttons)"]
          h1 h2 h3 h4 h5 h6
    by (simp add: Let_def)
qed

text \<open>The claim floors at 0 before the bonus. Eleven icon-only buttons without an
  accessible name give twelve warnings and one improvement: the code answers 0, the
  claim's formula 5.\<close>

theorem critique_score_counterexample:
  "map_sum id fb_score (analyzeDesign eleven_icon_buttons) = Inr 0
   \<and> map_sum id claimed_critique_score (analyzeDesign eleven_icon_buttons) = Inr 5"
  by code_simp

section \<open>The accessibility report\<close>

lemma filter_empty_list_ex: "(filter P xs = []) = (\<not> list_ex P xs)"
  by (simp add: filter_empty_conv list_ex_iff)

text \<open>
  C1. The report of the validation has \<open>passed\<close> true exactly when none of its
  violations has impact \<open>critical\<close>; violations of the other impacts leave it true. The
  response of the validation succeeds exactly when the report passed, and carries that
  report.
\<close>

theorem passed_iff_no_critical:
  assumes "runAccessibilityChecks uiSpec = Inr report"
  shows "passed report = (length (filter (\<lambda>v. v_impact v = Critical) (violations report)) = 0)
         \<and> passed report = (\<not> list_ex (\<lambda>v. v_impact v = Critical) (violations report))
         \<and> passed report
             = list_all (\<lambda>v. v_impact v = Serious \<or> v_impact v = Moderate \<or> v_impact v = Minor)
                 (violations report)
         \<and> success (validate uiSpec) = passed report
         \<and> map_option a11y_report (data (validate uiSpec)) = Some report"
proof -
  from assms obtain r0 where
    r: "report = r0\<lparr> score := calculateA11yScore r0,
                     passed := (length (filter (\<lambda>v. v_impact v = Critical) (violations r0)) = 0) \<rparr>"
    by (rule runAccessibilityChecks_result)
  have p: "passed report = (length (filter (\<lambda>v. v_impact v = Critical) (violations report)) = 0)"
    by (simp add: r)
  have i: "(v_impact v = Serious \<or> v_impact v = Moderate \<or> v_impact v = Minor)
             = (v_impact v \<noteq> Critical)" for v :: Violation
    by (cases "v_impact v") simp_all
  have q: "list_all (\<lambda>v. v_impact v = Serious \<or> v_impact v = Moderate \<or> v_impact v = Minor)
             (violations report)
           = (\<not> list_ex (\<lambda>v. v_impact v = Critical) (violations report))"
    unfolding i by (induction "violations report") (auto simp: list_all_iff list_ex_iff)
  have s: "success (validate uiSpec) = passed report"
    using assms p by (simp add: validate_def Let_def)
  have d: "map_option a11y_report (data (validate uiSpec)) = Some report"
    using assms by (simp add: validate_def Let_def)
  show ?thesis
    using p q s d by (simp add: filter_empty_list_ex)
qed

theorem passed_iff_no_critical_witness:
  "runAccessibilityChecks modal_ui = Inr (projr (runAccessibilityChecks modal_ui))
   \<and> map v_impact (violations (projr (runAccessibilityChecks modal_ui))) = [Serious]
   \<and> passed (projr (runAccessibilityChecks modal_ui))
   \<and> success (validate modal_ui)"
proof -
  have h: "runAccessibilityChecks modal_ui = Inr (projr (runAccessibilityChecks modal_ui))"
    by code_simp
  have v: "map v_impact (violations (projr (runAccessibilityChecks modal_ui))) = [Serious]"
    by code_simp
  have c: "\<not> list_ex (\<lambda>v. v_impact v = Critical)
               (violations (projr (runAccessibilityChecks modal_ui)))"
    by code_simp
  show ?thesis
    using h v c passed_iff_no_critical [OF h] by (simp add: filter_empty_list_ex)
qed

section \<open>Identifiers, versions and patches\<close>

lemma js_add_one_safe: "isSafeInteger a \<Longrightarrow> js_add a 1 = a + 1"
  by (simp add: js_add_def round_double_def isSafeInteger_def) arith

lemma next_version_eq: "next_version (ui_metadata ui) = js_add (version_or_zero ui) 1"
  by (simp add: next_version_def version_or_zero_def split: option.splits)

lemma modifyExistingUI_id_version:
  assumes "fst (modifyExistingUI e t request cur) = Inr ui'"
  shows "ui_id ui' = uuid_gen e (fst t)
         \<and> version_or_zero ui' = js_add (version_or_zero cur) 1"
proof -
  have v: "next_version (ui_metadata (clone cur)) = js_add (version_or_zero cur) 1"
    by (simp add: next_version_eq clone_def)
  show ?thesis
    using assms v
    by (auto simp: modifyExistingUI_def Let_def uuidv4_def toISOString_def
          version_or_zero_def split: sum.splits)
qed

lemma applyImprovements_keeps:
  "ui_id (applyImprovements uiSpec feedback) = ui_id uiSpec
   \<and> ui_metadata (applyImprovements uiSpec feedback) = ui_metadata uiSpec"
  by (simp add: applyImprovements_def clone_def Let_def)

lemma applyAccessibilityFixes_keeps:
  "ui_id (applyAccessibilityFixes uiSpec report) = ui_id uiSpec
   \<and> ui_metadata (applyAccessibilityFixes uiSpec report) = ui_metadata uiSpec"
  by (simp add: applyAccessibilityFixes_def clone_def Let_def)

text \<open>
  C6, as the code has it. A modification by the architect returns a specification whose
  id is the newly generated identifier, which differs from the input's id whenever the
  generator returns another value than that id, and whose version is the input's
  version plus 1 (a missing version counting as 0) whenever the input's version is a
  safe integer, so that the addition is exact. The critic's improvements and the
  accessibility fixes are applied to a copy that keeps the id and the metadata, the
  version with them, of the input.
\<close>

theorem mutation_ids_and_versions:
  "(fst (modifyExistingUI e t request cur) = Inr ui' \<longrightarrow>
      ui_id ui' = uuid_gen e (fst t)
      \<and> (uuid_gen e (fst t) \<noteq> ui_id cur \<longrightarrow> ui_id ui' \<noteq> ui_id cur)
      \<and> (isSafeInteger (version_or_zero cur) \<longrightarrow>
            version_or_zero ui' = version_or_zero cur + 1))
   \<and> ui_id (applyImprovements uiSpec feedback) = ui_id uiSpec
   \<and> version_or_zero (applyImprovements uiSpec feedback) = version_or_zero uiSpec
   \<and> ui_id (applyAccessibilityFixes uiSpec report) = ui_id uiSpec
   \<and> version_or_zero (applyAccessibilityFixes uiSpec report) = version_or_zero uiSpec"
  using modifyExistingUI_id_version [of e t request cur ui']
    js_add_one_safe [of "version_or_zero cur"]
    applyImprovements_keeps [of uiSpec feedback]
    applyAccessibilityFixes_keeps [of uiSpec report]
  by (simp add: version_or_zero_def)

theorem mutation_ids_and_versions_witness:
  "fst (modifyExistingUI example_env (0, 0) ''make it bigger'' chart_ui)
     = Inr (projr (fst (modifyExistingUI example_env (0, 0) ''make it bigger'' chart_ui)))
   \<and> uuid_gen example_env (fst (0::nat, 0::nat)) \<noteq> ui_id chart_ui
   \<and> isSafeInteger (version_or_zero chart_ui)
   \<and> ui_id (projr (fst (modifyExistingUI example_env (0, 0) ''make it bigger'' chart_ui)))
       = ''uuid-0''
   \<and> ui_id (projr (fst (modifyExistingUI example_env (0, 0) ''make it bigger'' chart_ui)))
       \<noteq> ui_id chart_ui
   \<and> version_or_zero (projr (fst (modifyExistingUI example_env (0, 0) ''make it bigger'' chart_ui)))
       = 2"
proof -
  have h: "fst (modifyExistingUI example_env (0, 0) ''make it bigger'' chart_ui)
     = Inr (projr (fst (modifyExistingUI example_env (0, 0) ''make it bigger'' chart_ui)))"
    by code_simp
  have u: "uuid_gen example_env (fst (0::nat, 0::nat)) = ''uuid-0''"
    by code_simp
  have i: "ui_id chart_ui = ''ui-1''"
    by code_simp
  have v: "version_or_zero chart_ui = 1"
    by code_simp
  have s: "isSafeInteger 1"
    by (simp add: isSafeInteger_def)
  show ?thesis
    using h u i v s
      mutation_ids_and_versions [of example_env "(0, 0)" "''make it bigger''" chart_ui
        "projr (fst (modifyExistingUI example_env (0, 0) ''make it bigger'' chart_ui))"]
    by simp
qed

text \<open>The claim fails for the critic and for the accessibility agent: the chart gets a
  title and a size, the icon-only button gets a label, and both keep the id \<open>ui-1\<close> and
  the version 1 of the input. It fails for the architect at the version \<open>2^53\<close>, where
  adding 1 returns \<open>2^53\<close> again.\<close>

theorem applied_changes_keep_id_counterexample:
  "map_option data_improvedUI (data (review chart_ui)) = Some (Some improved_chart_ui)
   \<and> ui_id improved_chart_ui = ui_id chart_ui
   \<and> version_or_zero improved_chart_ui = version_or_zero chart_ui
   \<and> ui_components improved_chart_ui \<noteq> ui_components chart_ui
   \<and> map_option a11y_fixedUI (data (validate icon_button_ui)) = Some fixed_icon_button_ui
   \<and> ui_id fixed_icon_button_ui = ui_id icon_button_ui
   \<and> version_or_zero fixed_icon_button_ui = version_or_zero icon_button_ui
   \<and> ui_components fixed_icon_button_ui \<noteq> ui_components icon_button_ui
   \<and> version_or_zero old_chart_ui = 9007199254740992
   \<and> (case fst (modifyExistingUI example_env (0, 0) ''make it bigger'' old_chart_ui) of
        Inl err \<Rightarrow> None
      | Inr ui \<Rightarrow> Some (version_or_zero ui)) = Some 9007199254740992"
  by code_simp

lemma applyImprovement_out_of_range:
  "length cs \<le> imp_componentIndex improvement \<Longrightarrow> applyImprovement improvement cs = cs"
  by (simp add: applyImprovement_def Let_def split: option.splits)

lemma applyFix_out_of_range:
  "v_componentIndex violation = Some i \<Longrightarrow> length cs \<le> i \<Longrightarrow> applyFix violation cs = cs"
  by (simp add: applyFix_def)

text \<open>
  C9. Where the critic and the accessibility agent leave a patch at a missing index
  alone (the two lemmas above), the architect's \<open>update\<close> reads the component without a
  check. With a current UI of no components, the request \<open>make it bigger\<close> is classified
  \<open>modify\<close>, the update of component 0 throws, and the generation fails with
  \<open>PROCESSING_ERROR\<close>.
\<close>

theorem modify_update_throws_on_empty:
  "analyzeRequestType (empty_context\<lparr> currentUI := Some (example_ui []) \<rparr>) ''make it bigger''
     = Modify
   \<and> fst (modifyExistingUI example_env (0, 0) ''make it bigger'' (example_ui []))
       = Inl (TypeError (''Cannot read properties of undefined (reading ''
                           @ [CHR 0x27] @ ''props'' @ [CHR 0x27] @ '')''))
   \<and> fst (architect_processRequest example_env (0, 0)
            (empty_context\<lparr> currentUI := Some (example_ui []) \<rparr>) ''make it bigger'')
       = failure ''PROCESSING_ERROR''
           (''TypeError: Cannot read properties of undefined (reading ''
              @ [CHR 0x27] @ ''props'' @ [CHR 0x27] @ '')'')"
  by code_simp

section \<open>Requests to modify without a current UI\<close>

lemma modifyUI_without_current_UI:
  assumes "currentUI (o_context st) = None"
  shows "snd (modifyUI ags e st message) = st
         \<and> map pe_code (r_errors (fst (modifyUI ags e st message))) = [''NO_UI'']
         \<and> r_uiSpec (fst (modifyUI ags e st message)) = None
         \<and> \<not> r_success (fst (modifyUI ags e st message))"
  using assms by (simp add: modifyUI_def)


section \<open>The pipeline\<close>

lemma appended_refl: "appended ms ms []"
  by (simp add: appended_def log_entries_def)

lemma appended_trans:
  "appended a b es \<Longrightarrow> appended b c es' \<Longrightarrow> appended a c (es @ es')"
  by (auto simp: appended_def log_entries_def)

lemma appended_run_messages:
  "appended (o_messages st) (r_messages result) es \<Longrightarrow> log_entries (run_messages st result) = es"
  by (auto simp: appended_def run_messages_def)

lemma logMessage_options [simp]: "o_options (logMessage e f t a p st) = o_options st"
  by (simp add: logMessage_def Let_def uuidv4_def toISOString_def)

lemma logMessage_appended:
  "appended (o_messages st) (o_messages (logMessage e f t a p st)) [(a, p)]"
  by (simp add: logMessage_def Let_def uuidv4_def toISOString_def appended_def log_entries_def)

lemma set_currentUI_simps [simp]:
  "run_orch (set_currentUI ui r)
     = (run_orch r)\<lparr> o_context := (o_context (run_orch r))\<lparr> currentUI := Some ui \<rparr> \<rparr>"
  "run_currentUI (set_currentUI ui r) = ui"
  "run_result (set_currentUI ui r) = (run_result r)\<lparr> r_uiSpec := Some ui \<rparr>"
  by (simp_all add: set_currentUI_def)

lemma push_error_simps [simp]:
  "r_uiSpec (push_error ag errs c m result) = r_uiSpec result"
  "r_exportPackage (push_error ag errs c m result) = r_exportPackage result"
  "r_success (push_error ag errs c m result) = r_success result"
  "r_accessibilityReport (push_error ag errs c m result) = r_accessibilityReport result"
  "r_messages (push_error ag errs c m result) = r_messages result"
  "r_errors (push_error ag errs c m result)
     = r_errors result @ [\<lparr> pe_agent = ag, pe_code = first_code errs c,
                              pe_message = first_message errs m \<rparr>]"
  by (simp_all add: push_error_def)

lemma list_ex_append_right: "list_ex P ys \<Longrightarrow> list_ex P (xs @ ys)"
  by (auto simp: list_ex_iff)

lemma list_ex_append_left: "list_ex P xs \<Longrightarrow> list_ex P (xs @ ys)"
  by (auto simp: list_ex_iff)

lemma step_design_facts:
  "o_options (run_orch (step_design ags e r)) = o_options (run_orch r)
   \<and> appended (o_messages (run_orch r)) (o_messages (run_orch (step_design ags e r)))
       (if skipDesignReview (o_options (run_orch r)) then []
        else [(VALIDATE_DESIGN, PUISpec (run_currentUI r))])
   \<and> (\<exists>es. r_errors (run_result (step_design ags e r)) = r_errors (run_result r) @ es
          \<and> (\<not> skipDesignReview (o_options (run_orch r))
               \<and> \<not> success (critic ags (run_currentUI r))
               \<longrightarrow> list_ex (\<lambda>x. pe_agent x = DesignCritic) es))
   \<and> (r_uiSpec (run_result r) \<noteq> None \<longrightarrow> r_uiSpec (run_result (step_design ags e r)) \<noteq> None)
   \<and> r_exportPackage (run_result (step_design ags e r)) = r_exportPackage (run_result r)
   \<and> r_success (run_result (step_design ags e r)) = r_success (run_result r)
   \<and> r_accessibilityReport (run_result (step_design ags e r))
       = r_accessibilityReport (run_result r)"
  using logMessage_appended [of "run_orch r" e Orchestrator DesignCritic VALIDATE_DESIGN
          "PUISpec (run_currentUI r)"]
  by (auto simp: step_design_def Let_def appended_refl split: option.splits)

lemma validate_throws:
  "runAccessibilityChecks ui = Inl err
   \<Longrightarrow> validate ui = failure ''VALIDATION_ERROR'' (error_String err)"
  by (simp add: validate_def)

lemma validate_completes:
  assumes "runAccessibilityChecks ui = Inr report"
  shows "success (validate ui) = (\<not> has_critical ui)
         \<and> data (validate ui) = Some \<lparr> a11y_report = report,
                                        a11y_fixedUI = applyAccessibilityFixes ui report \<rparr>
         \<and> passed report = (\<not> has_critical ui)
         \<and> (has_critical ui \<longrightarrow> errors (validate ui) \<noteq> [])"
proof -
  from assms obtain r0 where
    r: "report = r0\<lparr> score := calculateA11yScore r0,
                     passed := (length (filter (\<lambda>v. v_impact v = Critical) (violations r0)) = 0) \<rparr>"
    by (rule runAccessibilityChecks_result)
  have p: "passed report = (\<not> has_critical ui)"
    using assms by (simp add: r has_critical_def filter_empty_list_ex)
  show ?thesis
    using assms p
    by (auto simp: validate_def Let_def has_critical_def filter_empty_list_ex)
qed

lemma step_a11y_facts:
  assumes "a11y ags = validate" and "r_accessibilityReport (run_result r) = None"
  shows "snd (step_a11y ags e r)
           = (\<not> skipAccessibilityCheck (o_options (run_orch r)) \<and> has_critical (run_currentUI r))
   \<and> o_options (run_orch (fst (step_a11y ags e r))) = o_options (run_orch r)
   \<and> appended (o_messages (run_orch r)) (o_messages (run_orch (fst (step_a11y ags e r))))
       (if skipAccessibilityCheck (o_options (run_orch r)) then []
        else [(VALIDATE_ACCESSIBILITY, PUISpec (run_currentUI r))])
   \<and> (\<exists>es. r_errors (run_result (fst (step_a11y ags e r))) = r_errors (run_result r) @ es
          \<and> (snd (step_a11y ags e r) \<longrightarrow> list_ex (\<lambda>x. pe_agent x = Accessibility) es))
   \<and> (r_uiSpec (run_result r) \<noteq> None
        \<longrightarrow> r_uiSpec (run_result (fst (step_a11y ags e r))) \<noteq> None)
   \<and> r_exportPackage (run_result (fst (step_a11y ags e r))) = r_exportPackage (run_result r)
   \<and> r_success (run_result (fst (step_a11y ags e r))) = r_success (run_result r)
   \<and> (snd (step_a11y ags e r) \<longrightarrow>
        r_messages (run_result (fst (step_a11y ags e r)))
          = o_messages (run_orch (fst (step_a11y ags e r))))"
proof (cases "skipAccessibilityCheck (o_options (run_orch r))")
  case True
  then show ?thesis
    by (simp add: step_a11y_def appended_refl)
next
  case False
  note lg = logMessage_appended [of "run_orch r" e Orchestrator Accessibility
                VALIDATE_ACCESSIBILITY "PUISpec (run_currentUI r)"]
  show ?thesis
  proof (cases "runAccessibilityChecks (run_currentUI r)")
    case (Inl err)
    then have v: "validate (run_currentUI r) = failure ''VALIDATION_ERROR'' (error_String err)"
      by (rule validate_throws)
    have h: "\<not> has_critical (run_currentUI r)"
      using Inl by (simp add: has_critical_def)
    show ?thesis
      using False lg h
      by (auto simp: step_a11y_def Let_def assms v failure_def appended_refl
               split: option.splits)
  next
    case (Inr report)
    note vc = validate_completes [OF Inr]
    show ?thesis
      using False lg vc
      by (auto simp: step_a11y_def Let_def assms split: option.splits)
  qed
qed

lemma step_export_facts:
  "o_options (run_orch (fst (step_export ags e r))) = o_options (run_orch r)
   \<and> appended (o_messages (run_orch r)) (o_messages (run_orch (fst (step_export ags e r))))
       (if exportOnSuccess (o_options (run_orch r))
        then [(EXPORT_CODE, PUISpec (run_currentUI r))] else [])
   \<and> (\<exists>es. r_errors (run_result (fst (step_export ags e r))) = r_errors (run_result r) @ es)
   \<and> (r_uiSpec (run_result r) \<noteq> None
        \<longrightarrow> r_uiSpec (run_result (fst (step_export ags e r))) \<noteq> None)"
  using logMessage_appended [of "run_orch r" e Orchestrator ExportEngineer EXPORT_CODE
          "PUISpec (run_currentUI r)"]
  by (auto simp: step_export_def Let_def appended_refl split: sum.splits option.splits)

text \<open>What a run that generated a specification logged and recorded: the two messages
  of the request and the generation, then one message per stage that ran; the export is
  logged unless it is switched off or the validation found a critical violation.\<close>

lemma processRequest_trace:
  assumes run: "orchestrator_processRequest ags e st userMessage = (result, st')"
    and gen: "r_uiSpec result \<noteq> None"
    and val: "a11y ags = validate"
  shows "\<exists>ui0 ui1 ui2.
           log_entries (run_messages st result)
             = [(ANALYZE_REQUEST, PMessage userMessage), (CREATE_UI, PUserMessage userMessage)]
               @ (if skipDesignReview (o_options st) then []
                  else [(VALIDATE_DESIGN, PUISpec ui0)])
               @ (if skipAccessibilityCheck (o_options st) then []
                  else [(VALIDATE_ACCESSIBILITY, PUISpec ui1)])
               @ (if exportOnSuccess (o_options st)
                     \<and> \<not> (\<not> skipAccessibilityCheck (o_options st) \<and> has_critical ui1)
                  then [(EXPORT_CODE, PUISpec ui2)] else [])
         \<and> (\<not> skipDesignReview (o_options st) \<and> \<not> success (critic ags ui0)
              \<longrightarrow> list_ex (\<lambda>x. pe_agent x = DesignCritic) (r_errors result))
         \<and> (\<not> skipAccessibilityCheck (o_options st) \<and> has_critical ui1
              \<longrightarrow> r_exportPackage result = None \<and> \<not> r_success result
                  \<and> list_ex (\<lambda>x. pe_agent x = Accessibility) (r_errors result))"
proof -
  define st1 where "st1 = logMessage e User Orchestrator ANALYZE_REQUEST (PMessage userMessage) st"
  define st2 where
    "st2 = logMessage e Orchestrator UIArchitect CREATE_UI (PUserMessage userMessage) st1"
  define result0 where
    "result0 = \<lparr> r_conversationId = conversationId (o_context st1), r_success = False,
                  r_uiSpec = None, r_designFeedback = None, r_accessibilityReport = None,
                  r_exportPackage = None, r_errors = [], r_messages = [] \<rparr>"
  obtain aresp t' where
    arch: "architect ags e (o_ticks st2) (o_context st2) userMessage = (aresp, t')"
    by (cases "architect ags e (o_ticks st2) (o_context st2) userMessage") auto
  define st3 where "st3 = st2\<lparr> o_ticks := t' \<rparr>"
  have arch': "architect ags e
      (o_ticks (logMessage e Orchestrator UIArchitect CREATE_UI (PUserMessage userMessage)
                  (logMessage e User Orchestrator ANALYZE_REQUEST (PMessage userMessage) st)))
      (o_context (logMessage e Orchestrator UIArchitect CREATE_UI (PUserMessage userMessage)
                  (logMessage e User Orchestrator ANALYZE_REQUEST (PMessage userMessage) st)))
      userMessage = (aresp, t')"
    using arch by (simp add: st1_def st2_def)
  have ok: "success aresp \<and> data aresp \<noteq> None"
  proof (rule ccontr)
    assume "\<not> (success aresp \<and> data aresp \<noteq> None)"
    then have "r_uiSpec result = None"
      using run arch'
      by (auto simp: orchestrator_processRequest_def Let_def split: bool.splits option.splits)
    with gen show False by simp
  qed
  then obtain ui where ui: "data aresp = Some ui" and sc: "success aresp"
    by auto
  define r0 where
    "r0 = set_currentUI ui \<lparr> run_result = result0, run_orch = st3, run_currentUI = ui \<rparr>"
  define r2 where "r2 = step_design ags e r0"
  define r3 where "r3 = fst (step_a11y ags e r2)"
  define returned where "returned = snd (step_a11y ags e r2)"
  define r4 where "r4 = fst (step_export ags e r3)"
  note defs = orchestrator_processRequest_def Let_def r0_def r2_def r3_def r4_def returned_def
    st3_def st2_def st1_def result0_def
  have eqT: "returned \<Longrightarrow> result = run_result r3"
    using run arch' ui sc by (simp add: defs case_prod_beta)
  have eqF: "\<not> returned \<Longrightarrow> r_messages result = o_messages (run_orch r4)
               \<and> (\<exists>es. r_errors result = r_errors (run_result r4) @ es)"
    using run arch' ui sc
    by (auto simp: defs finish_def split: prod.splits option.splits)
  have opts0: "o_options (run_orch r0) = o_options st"
    by (simp add: r0_def st3_def st2_def st1_def)
  have log0: "appended (o_messages st) (o_messages (run_orch r0))
                [(ANALYZE_REQUEST, PMessage userMessage), (CREATE_UI, PUserMessage userMessage)]"
    using appended_trans [OF logMessage_appended [of st e User Orchestrator ANALYZE_REQUEST
                                "PMessage userMessage", folded st1_def]
                             logMessage_appended [of st1 e Orchestrator UIArchitect CREATE_UI
                                "PUserMessage userMessage", folded st2_def]]
    by (simp add: r0_def st3_def)
  have res0: "r_errors (run_result r0) = []" "r_uiSpec (run_result r0) \<noteq> None"
    "r_exportPackage (run_result r0) = None" "\<not> r_success (run_result r0)"
    "r_accessibilityReport (run_result r0) = None" "run_currentUI r0 = ui"
    by (simp_all add: r0_def result0_def)
  note d = step_design_facts [of ags e r0, folded r2_def]
  have rep2: "r_accessibilityReport (run_result r2) = None"
    using d res0 by simp
  note a = step_a11y_facts [OF val rep2, of e, folded r3_def returned_def]
  note x = step_export_facts [of ags e r3, folded r4_def]
  have opts2: "o_options (run_orch r2) = o_options st" using d opts0 by simp
  have opts3: "o_options (run_orch r3) = o_options st" using a opts2 by simp
  have ret: "returned
               = (\<not> skipAccessibilityCheck (o_options st) \<and> has_critical (run_currentUI r2))"
    using a opts2 by simp
  have log3: "appended (o_messages st) (o_messages (run_orch r3))
      ([(ANALYZE_REQUEST, PMessage userMessage), (CREATE_UI, PUserMessage userMessage)]
        @ (if skipDesignReview (o_options st) then [] else [(VALIDATE_DESIGN, PUISpec ui)])
        @ (if skipAccessibilityCheck (o_options st) then []
           else [(VALIDATE_ACCESSIBILITY, PUISpec (run_currentUI r2))]))"
    using appended_trans [OF appended_trans [OF log0 conjunct1 [OF conjunct2 [OF d]]]
                             conjunct1 [OF conjunct2 [OF conjunct2 [OF a]]]]
    by (simp add: opts0 opts2 res0 split: if_splits)
  have derr: "\<not> skipDesignReview (o_options st) \<and> \<not> success (critic ags ui)
               \<longrightarrow> list_ex (\<lambda>x. pe_agent x = DesignCritic) (r_errors (run_result r2))"
    using d by (auto simp: opts0 res0 intro: list_ex_append_right)
  have derr3: "\<not> skipDesignReview (o_options st) \<and> \<not> success (critic ags ui)
               \<longrightarrow> list_ex (\<lambda>x. pe_agent x = DesignCritic) (r_errors (run_result r3))"
    using derr a by (auto intro: list_ex_append_left)
  have derr4: "\<not> skipDesignReview (o_options st) \<and> \<not> success (critic ags ui)
               \<longrightarrow> list_ex (\<lambda>x. pe_agent x = DesignCritic) (r_errors (run_result r4))"
    using derr3 x by (auto intro: list_ex_append_left)
  show ?thesis
  proof (cases returned)
    case True
    then have r: "result = run_result r3" by (rule eqT)
    have m: "r_messages result = o_messages (run_orch r3)"
      using a True r by simp
    have l: "log_entries (run_messages st result)
      = [(ANALYZE_REQUEST, PMessage userMessage), (CREATE_UI, PUserMessage userMessage)]
        @ (if skipDesignReview (o_options st) then [] else [(VALIDATE_DESIGN, PUISpec ui)])
        @ (if skipAccessibilityCheck (o_options st) then []
           else [(VALIDATE_ACCESSIBILITY, PUISpec (run_currentUI r2))])"
      by (rule appended_run_messages, unfold m, rule log3)
    have h: "r_exportPackage result = None \<and> \<not> r_success result
             \<and> list_ex (\<lambda>x. pe_agent x = Accessibility) (r_errors result)"
      using a d res0 True r by (auto intro: list_ex_append_right)
    show ?thesis
      apply (rule exI [of _ ui], rule exI [of _ "run_currentUI r2"], rule exI [of _ ui])
      using l h derr3 True ret r by auto
  next
    case False
    have m: "r_messages result = o_messages (run_orch r4)"
      using eqF False by simp
    have e4: "\<exists>es. r_errors result = r_errors (run_result r4) @ es"
      using eqF False by simp
    have log4: "appended (o_messages st) (o_messages (run_orch r4))
      (([(ANALYZE_REQUEST, PMessage userMessage), (CREATE_UI, PUserMessage userMessage)]
        @ (if skipDesignReview (o_options st) then [] else [(VALIDATE_DESIGN, PUISpec ui)])
        @ (if skipAccessibilityCheck (o_options st) then []
           else [(VALIDATE_ACCESSIBILITY, PUISpec (run_currentUI r2))]))
        @ (if exportOnSuccess (o_options st) then [(EXPORT_CODE, PUISpec (run_currentUI r3))]
           else []))"
      using appended_trans [OF log3 conjunct1 [OF conjunct2 [OF x]]]
      by (simp add: opts3 split: if_splits)
    have l: "log_entries (run_messages st result)
      = ([(ANALYZE_REQUEST, PMessage userMessage), (CREATE_UI, PUserMessage userMessage)]
        @ (if skipDesignReview (o_options st) then [] else [(VALIDATE_DESIGN, PUISpec ui)])
        @ (if skipAccessibilityCheck (o_options st) then []
           else [(VALIDATE_ACCESSIBILITY, PUISpec (run_currentUI r2))]))
        @ (if exportOnSuccess (o_options st) then [(EXPORT_CODE, PUISpec (run_currentUI r3))]
           else [])"
      by (rule appended_run_messages, unfold m, rule log4)
    have de: "\<not> skipDesignReview (o_options st) \<and> \<not> success (critic ags ui)
               \<longrightarrow> list_ex (\<lambda>x. pe_agent x = DesignCritic) (r_errors result)"
      using derr4 e4 by (auto intro: list_ex_append_left)
    show ?thesis
      apply (rule exI [of _ ui], rule exI [of _ "run_currentUI r2"],
             rule exI [of _ "run_currentUI r3"])
      using l de False ret by auto
  qed
qed

lemma actions_of_log: "map msg_action ms = map fst (log_entries ms)"
  by (simp add: log_entries_def)

lemma logged_uis_of_log:
  "logged_uis a ms
     = concat (map (\<lambda>x. payload_ui (snd x)) (filter (\<lambda>x. fst x = a) (log_entries ms)))"
  by (induction ms) (auto simp: logged_uis_def log_entries_def)

text \<open>
  C3. In every run of the pipeline that generated a specification, with the validation
  of this repository and any critic, architect and export engineer: a critique that did
  not succeed is recorded as an error of the design critic and the run still logs the
  validation (unless the accessibility check is switched off); a validation whose report
  has a critical violation ends the run before the export, with no export package, an
  accessibility error and no success; and when the export is asked for and was not
  reached, the validation found a critical violation: nothing else ends such a run
  before the export.
\<close>

theorem validation_is_the_only_gate:
  assumes "orchestrator_processRequest ags e st userMessage = (result, st')"
    and "r_uiSpec result \<noteq> None"
    and "a11y ags = validate"
  shows "(list_ex (\<lambda>ui. \<not> success (critic ags ui))
            (logged_uis VALIDATE_DESIGN (run_messages st result))
          \<longrightarrow> list_ex (\<lambda>x. pe_agent x = DesignCritic) (r_errors result)
              \<and> (\<not> skipAccessibilityCheck (o_options st)
                   \<longrightarrow> VALIDATE_ACCESSIBILITY \<in> set (map msg_action (run_messages st result))))
         \<and> (list_ex has_critical (logged_uis VALIDATE_ACCESSIBILITY (run_messages st result))
          \<longrightarrow> EXPORT_CODE \<notin> set (map msg_action (run_messages st result))
              \<and> r_exportPackage result = None \<and> \<not> r_success result
              \<and> list_ex (\<lambda>x. pe_agent x = Accessibility) (r_errors result))
         \<and> (exportOnSuccess (o_options st)
              \<and> EXPORT_CODE \<notin> set (map msg_action (run_messages st result))
          \<longrightarrow> list_ex has_critical (logged_uis VALIDATE_ACCESSIBILITY (run_messages st result)))"
proof -
  from processRequest_trace [OF assms] obtain ui0 ui1 ui2 where
    l: "log_entries (run_messages st result)
          = [(ANALYZE_REQUEST, PMessage userMessage), (CREATE_UI, PUserMessage userMessage)]
            @ (if skipDesignReview (o_options st) then []
               else [(VALIDATE_DESIGN, PUISpec ui0)])
            @ (if skipAccessibilityCheck (o_options st) then []
               else [(VALIDATE_ACCESSIBILITY, PUISpec ui1)])
            @ (if exportOnSuccess (o_options st)
                  \<and> \<not> (\<not> skipAccessibilityCheck (o_options st) \<and> has_critical ui1)
               then [(EXPORT_CODE, PUISpec ui2)] else [])"
    and d: "\<not> skipDesignReview (o_options st) \<and> \<not> success (critic ags ui0)
              \<longrightarrow> list_ex (\<lambda>x. pe_agent x = DesignCritic) (r_errors result)"
    and a: "\<not> skipAccessibilityCheck (o_options st) \<and> has_critical ui1
              \<longrightarrow> r_exportPackage result = None \<and> \<not> r_success result
                  \<and> list_ex (\<lambda>x. pe_agent x = Accessibility) (r_errors result)"
    by blast
  have p1: "list_ex (\<lambda>ui. \<not> success (critic ags ui))
              (logged_uis VALIDATE_DESIGN (run_messages st result))
            \<longrightarrow> list_ex (\<lambda>x. pe_agent x = DesignCritic) (r_errors result)
                \<and> (\<not> skipAccessibilityCheck (o_options st)
                     \<longrightarrow> VALIDATE_ACCESSIBILITY \<in> set (map msg_action (run_messages st result)))"
    using d by (simp add: actions_of_log logged_uis_of_log l)
  have p2: "list_ex has_critical (logged_uis VALIDATE_ACCESSIBILITY (run_messages st result))
            \<longrightarrow> EXPORT_CODE \<notin> set (map msg_action (run_messages st result))
                \<and> r_exportPackage result = None \<and> \<not> r_success result
                \<and> list_ex (\<lambda>x. pe_agent x = Accessibility) (r_errors result)"
    using a by (simp add: actions_of_log logged_uis_of_log l)
  have p3: "exportOnSuccess (o_options st)
              \<and> EXPORT_CODE \<notin> set (map msg_action (run_messages st result))
            \<longrightarrow> list_ex has_critical (logged_uis VALIDATE_ACCESSIBILITY (run_messages st result))"
    by (auto simp: actions_of_log logged_uis_of_log l)
  from p1 p2 p3 show ?thesis by blast
qed

theorem validation_is_the_only_gate_witness:
  "r_uiSpec (fst (orchestrator_processRequest stub_agents example_env example_orchestrator
                    ''an icon button'')) \<noteq> None
   \<and> list_ex (\<lambda>ui. \<not> success (critic stub_agents ui))
        (logged_uis VALIDATE_DESIGN
           (run_messages example_orchestrator
              (fst (orchestrator_processRequest stub_agents example_env example_orchestrator
                      ''an icon button''))))
   \<and> list_ex has_critical
        (logged_uis VALIDATE_ACCESSIBILITY
           (run_messages example_orchestrator
              (fst (orchestrator_processRequest stub_agents example_env example_orchestrator
                      ''an icon button''))))
   \<and> exportOnSuccess (o_options example_orchestrator)
   \<and> list_ex (\<lambda>x. pe_agent x = DesignCritic)
        (r_errors (fst (orchestrator_processRequest stub_agents example_env example_orchestrator
                          ''an icon button'')))
   \<and> VALIDATE_ACCESSIBILITY
        \<in> set (map msg_action
                 (run_messages example_orchestrator
                    (fst (orchestrator_processRequest stub_agents example_env
                            example_orchestrator ''an icon button''))))
   \<and> EXPORT_CODE
        \<notin> set (map msg_action
                 (run_messages example_orchestrator
                    (fst (orchestrator_processRequest stub_agents example_env
                            example_orchestrator ''an icon button''))))
   \<and> r_exportPackage (fst (orchestrator_processRequest stub_agents example_env
                              example_orchestrator ''an icon button'')) = None
   \<and> \<not> r_success (fst (orchestrator_processRequest stub_agents example_env example_orchestrator
                          ''an icon button''))"
proof -
  define R where
    "R = orchestrator_processRequest stub_agents example_env example_orchestrator
           ''an icon button''"
  have h1: "orchestrator_processRequest stub_agents example_env example_orchestrator
              ''an icon button'' = (fst R, snd R)"
    by (simp add: R_def)
  have h2: "r_uiSpec (fst R) \<noteq> None"
    unfolding R_def by code_simp
  have h3: "a11y stub_agents = validate"
    by (simp add: stub_agents_def)
  have c1: "list_ex (\<lambda>ui. \<not> success (critic stub_agents ui))
              (logged_uis VALIDATE_DESIGN (run_messages example_orchestrator (fst R)))"
    unfolding R_def by code_simp
  have c2: "list_ex has_critical
              (logged_uis VALIDATE_ACCESSIBILITY (run_messages example_orchestrator (fst R)))"
    unfolding R_def by code_simp
  have c3: "exportOnSuccess (o_options example_orchestrator)"
    by code_simp
  have c4: "\<not> skipAccessibilityCheck (o_options example_orchestrator)"
    by code_simp
  show ?thesis
    using validation_is_the_only_gate [OF h1 h2 h3] h2 c1 c2 c3 c4
    unfolding R_def by blast
qed

section \<open>The export\<close>

lemma package_files_paths:
  "map pf_path (fst (package_files e t cs pn))
     = (let projectName = (case pn of None \<Rightarrow> ''generated-ui'' | Some n \<Rightarrow> n)
        in [projectName @ ''/app/page.tsx'', projectName @ ''/styles/generated.css'',
            projectName @ ''/ui-smith.config.json'', projectName @ ''/README.md''])"
  by (simp add: package_files_def Let_def toISOString_def)

lemma package_files_static:
  "take 2 (fst (package_files e t cs pn))
     = (let projectName = (case pn of None \<Rightarrow> ''generated-ui'' | Some n \<Rightarrow> n)
        in [\<lparr> pf_path = projectName @ ''/app/page.tsx'',
               pf_content = generatePageCode cs True ''nextjs'' \<rparr>,
            \<lparr> pf_path = projectName @ ''/styles/generated.css'',
               pf_content = generateTailwindCSS cs \<rparr>])"
  by (simp add: package_files_def Let_def toISOString_def)

lemma package_files_clock:
  assumes "clock e (snd t) = clock e' (snd t')"
    and "clock e (Suc (snd t)) = clock e' (Suc (snd t'))"
  shows "fst (package_files e t cs pn) = fst (package_files e' t' cs pn)"
  using assms by (simp add: package_files_def Let_def toISOString_def)

lemma generate_export_package_clock:
  assumes "clock e (snd t) = clock e' (snd t')"
    and "clock e (Suc (snd t)) = clock e' (Suc (snd t'))"
  shows "fst (generate_export_package e t cs pn) = fst (generate_export_package e' t' cs pn)"
  using package_files_clock [OF assms, of cs pn]
  by (simp add: generate_export_package_def Let_def case_prod_beta)

lemma export_json_schema_clock:
  assumes "clock e (snd t) = clock e' (snd t')"
  shows "fst (export_json_schema e t cs im) = fst (export_json_schema e' t' cs im)"
  using assms by (simp add: export_json_schema_def Let_def toISOString_def case_prod_beta)

lemma export_json_schema_no_metadata:
  "fst (export_json_schema e t cs (Some False)) = fst (export_json_schema e' t' cs (Some False))"
  by (simp add: export_json_schema_def Let_def)

text \<open>
  C5, as the code has it. The export writes the time of the call into its output
  (\<open>generatedAt\<close> in the JSON schema and in the package configuration, the last line of
  the README). For the same components and options, two runs give the same file names,
  and the same page and stylesheet; they give the same contents throughout when the
  clock readings of the two runs agree, and the JSON schema without metadata is the same
  in every run.
\<close>

theorem export_same_up_to_clock:
  "map pf_path (fst (package_files e t cs pn)) = map pf_path (fst (package_files e' t' cs pn))
   \<and> take 2 (fst (package_files e t cs pn)) = take 2 (fst (package_files e' t' cs pn))
   \<and> (clock e (snd t) = clock e' (snd t') \<and> clock e (Suc (snd t)) = clock e' (Suc (snd t'))
        \<longrightarrow> fst (package_files e t cs pn) = fst (package_files e' t' cs pn)
            \<and> fst (generate_export_package e t cs pn) = fst (generate_export_package e' t' cs pn))
   \<and> (clock e (snd t) = clock e' (snd t')
        \<longrightarrow> fst (export_json_schema e t cs im) = fst (export_json_schema e' t' cs im))
   \<and> fst (export_json_schema e t cs (Some False)) = fst (export_json_schema e' t' cs (Some False))"
  using package_files_clock [of e t e' t' cs pn]
    generate_export_package_clock [of e t e' t' cs pn]
    export_json_schema_clock [of e t e' t' cs im]
    export_json_schema_no_metadata [of e t cs e' t']
  by (simp add: package_files_paths package_files_static)

theorem export_same_up_to_clock_witness:
  "clock example_env (snd (0::nat, 0::nat)) = clock other_env (snd (7::nat, 0::nat))
   \<and> clock example_env (Suc (snd (0::nat, 0::nat))) = clock other_env (Suc (snd (7::nat, 0::nat)))
   \<and> fst (package_files example_env (0, 0) example_tool_components None)
       = fst (package_files other_env (7, 0) example_tool_components None)
   \<and> fst (generate_export_package example_env (0, 0) example_tool_components None)
       = fst (generate_export_package other_env (7, 0) example_tool_components None)
   \<and> fst (export_json_schema example_env (0, 0) example_tool_components None)
       = fst (export_json_schema other_env (7, 0) example_tool_components None)"
proof -
  have h1: "clock example_env (snd (0::nat, 0::nat)) = clock other_env (snd (7::nat, 0::nat))"
    by (simp add: other_env_def)
  have h2: "clock example_env (Suc (snd (0::nat, 0::nat)))
              = clock other_env (Suc (snd (7::nat, 0::nat)))"
    by (simp add: other_env_def)
  show ?thesis
    using h1 h2
      export_same_up_to_clock [of example_env "(0, 0)" example_tool_components None
        other_env "(7, 0)" None]
    by simp
qed

text \<open>The claim fails between two runs at different times. The first run of the JSON
  schema export reads the clock once and the first run of the package export twice; the
  second run of each, on the same input, reads a later time and returns another text.\<close>

theorem export_timestamp_counterexample:
  "snd (export_json_schema example_env (0, 0) example_tool_components None) = (0, 1)
   \<and> fst (export_json_schema example_env (0, 0) example_tool_components None)
       \<noteq> fst (export_json_schema example_env (0, 1) example_tool_components None)
   \<and> snd (package_files example_env (0, 0) example_tool_components None) = (0, 2)
   \<and> map pf_content (fst (package_files example_env (0, 0) example_tool_components None))
       \<noteq> map pf_content (fst (package_files example_env (0, 2) example_tool_components None))"
  by code_simp

end
